theory Spec2Isabelle
  imports Complex_Main "HOL-Library.Word"
begin

section \<open>JavaScript values as the client sees them\<close>

text \<open>
  The quorum client (class \<open>PBFTClient\<close>) buckets node answers by a string built with a
  template literal, so the string conversion of status codes and of parsed JSON bodies is
  part of the algorithm. A status is the \<open>unsigned short\<close> of the Fetch API (or the literal
  520 of the timer), which a template prints in decimal.
\<close>

definition digit_char :: "nat \<Rightarrow> char" where
  "digit_char d = ''0123456789'' ! d"

fun show_nat :: "nat \<Rightarrow> string" where
  "show_nat n = (if n < 10 then [digit_char n] else show_nat (n div 10) @ [digit_char (n mod 10)])"

declare show_nat.simps [simp del]

text \<open>\<open>Array.prototype.join\<close> for a separator and already rendered elements.\<close>

fun join :: "string \<Rightarrow> string list \<Rightarrow> string" where
  "join sep [] = []"
| "join sep [x] = x"
| "join sep (x # y # ys) = x @ sep @ join sep (y # ys)"

text \<open>
  What \<open>response.json()\<close> resolves with: a parsed JSON document. A number is a double; it
  is given here by the text that \<open>Number.prototype.toString\<close> prints for it (\<open>1e+21\<close> for
  the document \<open>1e21\<close>, \<open>0.5\<close> for \<open>0.50\<close>), which tells any two doubles apart except the
  two zeros; the double \<open>-0\<close>, which prints as \<open>0\<close>, is written \<open>-0\<close>. An object is the list
  of its own properties. A string is written in UTF-8.
\<close>

datatype json_value =
    JNull
  | JBool bool
  | JNum string
  | JStr string
  | JArr "json_value list"
  | JObj "(string \<times> json_value) list"

text \<open>
  \<open>`${body}`\<close> applies ToString, which can throw (\<open>None\<close>). A string is itself. An array is
  its elements joined by commas, \<open>null\<close> giving the empty string and every other element
  its own conversion. An object is converted by its \<open>toString\<close> method: without an own
  property of that name this is \<open>Object.prototype.toString\<close> and gives \<open>[object Object]\<close>;
  with one, the property is a parsed value and not callable, \<open>valueOf\<close> gives no primitive
  either, and the conversion throws a \<open>TypeError\<close>.
\<close>

fun toString :: "json_value \<Rightarrow> string option" where
  "toString JNull = Some ''null''"
| "toString (JBool b) = Some (if b then ''true'' else ''false'')"
| "toString (JNum s) = Some (if s = ''-0'' then ''0'' else s)"
| "toString (JStr s) = Some s"
| "toString (JArr xs) =
     map_option (join '','') (those (map (\<lambda>x. if x = JNull then Some [] else toString x) xs))"
| "toString (JObj kvs) =
     (if ''toString'' \<in> set (map fst kvs) then None else Some ''[object Object]'')"

text \<open>\<open>`${x}`\<close> for a property that may be \<open>undefined\<close> (\<open>None\<close>).\<close>

definition tpl_num :: "16 word option \<Rightarrow> string" where
  "tpl_num x = (case x of None \<Rightarrow> ''undefined'' | Some n \<Rightarrow> show_nat (unat n))"

definition tpl_str :: "string option \<Rightarrow> string" where
  "tpl_str x = (case x of None \<Rightarrow> ''undefined'' | Some s \<Rightarrow> s)"


section \<open>Cluster configuration\<close>

text \<open>
  \<open>constructor(config)\<close>: \<open>this.nodes = config["nodes"]\<close> and
  \<open>this.F = Math.ceil((this.nodes.length - 1) / 3)\<close>.
\<close>

record node =
  host :: string
  clientport :: nat

definition fault_tolerance :: "nat \<Rightarrow> nat" where
  "fault_tolerance N = nat \<lceil>(of_int (int N - 1) :: rat) / 3\<rceil>"

record PBFTClient =
  nodes :: "node list"
  F :: nat

definition new_PBFTClient :: "node list \<Rightarrow> PBFTClient" where
  "new_PBFTClient config_nodes =
     \<lparr>nodes = config_nodes, F = fault_tolerance (length config_nodes)\<rparr>"


section \<open>Quorum broadcast: \<open>processResponse\<close> inside \<open>_broadcast\<close>\<close>

text \<open>
  What reaches \<open>processResponse\<close> is either the Response of \<open>window.fetch\<close> or the value a
  raced promise was rejected with. The function only reads the properties below, so an
  arriving object is the record of them: \<open>ok\<close> is the truthiness of \<open>response.ok\<close>,
  \<open>None\<close> stands for \<open>undefined\<close>, \<open>json_body\<close> is what \<open>response.json()\<close> resolves with
  (\<open>None\<close> when that promise rejects, as it does on a body that is not JSON), and
  \<open>text_body\<close> says whether \<open>response.text\<close> exists and what calling it gives.
\<close>

datatype 'a js_method = Undefined | Rejects | Resolves 'a

record response =
  ok :: bool
  status :: "16 word option"
  statusText :: "string option"
  json_body :: "json_value option"
  text_body :: "string js_method"

text \<open>A Response of the Fetch API: \<open>ok\<close> holds exactly for the statuses 200 to 299.\<close>

definition fetch_response :: "16 word \<Rightarrow> string \<Rightarrow> json_value option \<Rightarrow> string option \<Rightarrow> response" where
  "fetch_response code reason js tx =
     \<lparr>ok = (200 \<le> code \<and> code \<le> 299), status = Some code, statusText = Some reason,
      json_body = js, text_body = (case tx of None \<Rightarrow> Rejects | Some s \<Rightarrow> Resolves s)\<rparr>"

text \<open>The object literal \<open>{status: 520, statusText: "Request Timeout"}\<close> of the timer.\<close>

definition timeout_rejection :: response where
  "timeout_rejection =
     \<lparr>ok = False, status = Some 520, statusText = Some ''Request Timeout'',
      json_body = None, text_body = Undefined\<rparr>"

text \<open>The \<open>TypeError\<close> that \<open>window.fetch\<close> rejects with when a node cannot be reached.\<close>

definition fetch_failure :: response where
  "fetch_failure =
     \<lparr>ok = False, status = None, statusText = None, json_body = None, text_body = Undefined\<rparr>"

text \<open>
  The arguments of the one call of \<open>resolve\<close> or \<open>reject\<close>:
  \<open>resolve({status, statusText, body})\<close> and \<open>reject(error)\<close>.
\<close>

datatype settlement =
    Resolve "16 word option" "string option" json_value
  | Reject string

text \<open>
  The variables \<open>_broadcast\<close> closes over: the counter object \<open>responseMap\<close>, the latch
  \<open>promiseResolved\<close>, and (as a log) every call of \<open>resolve\<close> or \<open>reject\<close> in order.
\<close>

record broadcast_state =
  responseMap :: "string \<rightharpoonup> nat"
  promiseResolved :: bool
  settled :: "settlement list"

definition initial_state :: broadcast_state where
  "initial_state = \<lparr>responseMap = Map.empty, promiseResolved = False, settled = []\<rparr>"

text \<open>
  The \<open>get\<close> trap of the proxy: \<open>(map, name) => name in map ? map[name] : 0\<close>. A write goes
  through to the target, so a counter is an own property after its first increment. The
  keys used here contain a space or start with a digit or with \<open>undefined\<close>, so none of
  them is a property inherited from \<open>Map.prototype\<close>.
\<close>

definition proxy_get :: "(string \<rightharpoonup> nat) \<Rightarrow> string \<Rightarrow> nat" where
  "proxy_get m name = (case m name of None \<Rightarrow> 0 | Some v \<Rightarrow> v)"

text \<open>
  \<open>processResponse\<close> of the revision with the signed update (second document of
  \<open>unnamed/part_000\<close>; the first document has the same function). The callback that counts
  runs when the body promise resolves; when it rejects nothing is counted, and nothing is
  counted either when the template literal throws, which it does before the counter is
  touched.
\<close>

definition processResponse :: "nat \<Rightarrow> response \<Rightarrow> broadcast_state \<Rightarrow> broadcast_state" where
  "processResponse thisF response st =
     (let status = status response; statusText = statusText response in
      if ok response then
        (case json_body response of
           None \<Rightarrow> st
         | Some body \<Rightarrow>
             (case toString body of
                None \<Rightarrow> st
              | Some body_string \<Rightarrow>
                  let res = tpl_num status @ '' '' @ tpl_str statusText @ '' '' @ body_string;
                      n = proxy_get (responseMap st) res + 1;
                      st1 = st\<lparr>responseMap := (responseMap st)(res \<mapsto> n)\<rparr>
                  in if n = thisF + 1 \<and> \<not> promiseResolved st1
                     then st1\<lparr>promiseResolved := True,
                              settled := settled st1 @ [Resolve status statusText body]\<rparr>
                     else st1))
      else
        (case (case text_body response of
                 Undefined \<Rightarrow> Resolves ''''
               | Rejects \<Rightarrow> Rejects
               | Resolves t \<Rightarrow> Resolves t) of
           Resolves body \<Rightarrow>
             let error = tpl_num status @ '' '' @ tpl_str statusText @ '' '' @ body;
                 st1 = st\<lparr>responseMap :=
                           (responseMap st)(error \<mapsto> proxy_get (responseMap st) error + 1)\<rparr>
             in if proxy_get (responseMap st1) error = thisF + 1 \<and> \<not> promiseResolved st1
                then st1\<lparr>promiseResolved := True, settled := settled st1 @ [Reject error]\<rparr>
                else st1
         | _ \<Rightarrow> st))"

text \<open>
  The responses of one call in the order in which their counting callbacks run; the
  scheduler runs each callback to completion before the next.
\<close>

definition deliver :: "nat \<Rightarrow> response list \<Rightarrow> broadcast_state" where
  "deliver thisF rs = foldl (\<lambda>st r. processResponse thisF r st) initial_state rs"


section \<open>The broadcast rule in the words of the specification\<close>

text \<open>
  A NodeOutcome is a Success or a Failure with status, status text and body. An arriving
  object is classified by its ok flag; a Success body is the parsed document, a Failure
  body is the text, empty when the object has no text. No outcome arrives when the body
  cannot be read, or when a Success body has no string conversion (the callback throws
  before it counts).
\<close>

datatype outcome =
    Success "16 word option" "string option" json_value
  | Failure "16 word option" "string option" string

definition outcome_of :: "response \<Rightarrow> outcome option" where
  "outcome_of r =
     (if ok r then
        (case json_body r of
           None \<Rightarrow> None
         | Some b \<Rightarrow> (case toString b of
                        None \<Rightarrow> None
                      | Some s \<Rightarrow> Some (Success (status r) (statusText r) b)))
      else (case text_body r of
              Undefined \<Rightarrow> Some (Failure (status r) (statusText r) [])
            | Rejects \<Rightarrow> None
            | Resolves t \<Rightarrow> Some (Failure (status r) (statusText r) t)))"

text \<open>
  The string conversion of the body of an outcome that arrived (the empty default is for
  bodies without one, which never arrive).
\<close>

definition body_text :: "json_value \<Rightarrow> string" where
  "body_text b = (case toString b of None \<Rightarrow> [] | Some s \<Rightarrow> s)"

text \<open>The ResponseKey: \<open>{statusCode} {statusText} {body}\<close>.\<close>

fun ResponseKey :: "outcome \<Rightarrow> string" where
  "ResponseKey (Success c t b) = tpl_num c @ '' '' @ tpl_str t @ '' '' @ body_text b"
| "ResponseKey (Failure c t b) = tpl_num c @ '' '' @ tpl_str t @ '' '' @ b"

text \<open>A Success key resolves with the outcome's fields, a Failure key rejects with the key.\<close>

fun QuorumResult :: "outcome \<Rightarrow> settlement" where
  "QuorumResult (Success c t b) = Resolve c t b"
| "QuorumResult (Failure c t b) = Reject (ResponseKey (Failure c t b))"

definition outcomes :: "response list \<Rightarrow> outcome list" where
  "outcomes rs = List.map_filter outcome_of rs"

text \<open>
  The running count of a key \<open>k\<close>: how many of the outcomes so far carry it. The function
  \<open>key\<close> is the one that gives an outcome its key (\<open>ResponseKey\<close> here; the earlier revision
  of the client has another).
\<close>

definition tally :: "(outcome \<Rightarrow> string) \<Rightarrow> string \<Rightarrow> outcome list \<Rightarrow> nat" where
  "tally key k os = length (filter (\<lambda>x. key x = k) os)"

text \<open>
  The first outcome, in arrival order, whose arrival brings the count of its key to
  \<open>F + 1\<close>; \<open>seen\<close> are the outcomes before those still to come.
\<close>

fun first_quorum ::
  "(outcome \<Rightarrow> string) \<Rightarrow> nat \<Rightarrow> outcome list \<Rightarrow> outcome list \<Rightarrow> outcome option" where
  "first_quorum key thisF seen [] = None"
| "first_quorum key thisF seen (x # rest) =
     (if tally key (key x) (seen @ [x]) = thisF + 1 then Some x
      else first_quorum key thisF (seen @ [x]) rest)"

text \<open>
  Steps 4 to 6 for one arriving outcome: increment the counter of its key (a new key
  counts from zero) and, when the counter thereby reaches \<open>F + 1\<close> and the latch is
  open, close the latch and produce the outcome's result.
\<close>

definition count_vote ::
  "(outcome \<Rightarrow> string) \<Rightarrow> (outcome \<Rightarrow> settlement) \<Rightarrow> nat \<Rightarrow> outcome \<Rightarrow>
   broadcast_state \<Rightarrow> broadcast_state" where
  "count_vote key result thisF x st =
     (let k = key x;
          st1 = st\<lparr>responseMap := (responseMap st)(k \<mapsto> proxy_get (responseMap st) k + 1)\<rparr>
      in if proxy_get (responseMap st) k = thisF \<and> \<not> promiseResolved st
         then st1\<lparr>promiseResolved := True, settled := settled st @ [result x]\<rparr>
         else st1)"


section \<open>Promises, requests and the per-node deadline\<close>

text \<open>
  What a workflow throws or rejects with: a string (\<open>reject(error)\<close>), the wrapper
  \<open>{message: e}\<close>, \<open>Error(msg)\<close>, a \<open>TypeError\<close> of the runtime, or a value of a
  collaborator. \<open>typeof e === "string"\<close> holds for \<open>Str\<close> only.
\<close>

datatype thrown =
    Str string
  | Message thrown
  | Error string
  | TypeError
  | Foreign string

datatype 'a promise = Fulfilled 'a | Rejected thrown | Pending

text \<open>\<open>genPayload\<close> builds \<open>{alias, key, timestamp}\<close>; \<open>appendSignature\<close> adds \<open>signature\<close>
  (\<open>Some None\<close> is a signature property holding \<open>null\<close>).\<close>

record payload =
  payload_alias :: string
  payload_key :: string
  payload_timestamp :: nat
  payload_signature :: "string option option"

text \<open>
  The body of a request: none, a string passed as it is (\<open>modules/pbftClient.js\<close>), or
  \<open>JSON.stringify\<close> of a payload (\<open>unnamed/part_000\<close>), kept as the payload it serialises.
\<close>

datatype request_body = NoBody | Text string | Json payload

text \<open>
  What a workflow does to the outside, in order: the fetch of the cluster document, a
  fetch to a node (url, method, body), and the two prompts.
\<close>

datatype effect =
    FetchConfig
  | Fetch string string request_body
  | PromptSignature
  | PromptPassphrase

text \<open>
  \<open>Promise.race([promise, timer])\<close> with the timer rejecting after 7000 ms. A node's fetch
  either never settles (\<open>None\<close>) or settles at some time with a Response or a rejection
  value; it wins the race when it settles before the timer fires.
\<close>

type_synonym node_reply = "(nat \<times> response) option"

definition deadline :: nat where
  "deadline = 7000"

definition race :: "node_reply \<Rightarrow> response" where
  "race reply =
     (case reply of
        None \<Rightarrow> timeout_rejection
      | Some (t, r) \<Rightarrow> if t < deadline then r else timeout_rejection)"

text \<open>\<open>`http://${node["host"]}:${node["clientport"]}${path}`\<close>; a \<open>null\<close> path prints as \<open>null\<close>.\<close>

definition node_url :: "node \<Rightarrow> string option \<Rightarrow> string" where
  "node_url n path =
     ''http://'' @ host n @ '':'' @ show_nat (clientport n) @
       (case path of None \<Rightarrow> ''null'' | Some p \<Rightarrow> p)"

text \<open>
  The promise a broadcast returns, from the calls of \<open>resolve\<close> and \<open>reject\<close> made: it is
  fulfilled with the object \<open>{status, statusText, body}\<close> or rejected with the error string.
\<close>

type_synonym reply = "16 word option \<times> string option \<times> json_value"

definition promise_of :: "settlement list \<Rightarrow> reply promise" where
  "promise_of calls =
     (case calls of
        [] \<Rightarrow> Pending
      | Resolve c t b # _ \<Rightarrow> Fulfilled (c, t, b)
      | Reject e # _ \<Rightarrow> Rejected (Str e))"

text \<open>
  \<open>_broadcast(path, method, body)\<close> of \<open>unnamed/part_000\<close> (second document). The network
  is given as the function from the requests sent to what the nodes' fetches do, listed in
  the order in which the counting callbacks run.
\<close>

definition broadcast ::
  "PBFTClient \<Rightarrow> (effect list \<Rightarrow> node_reply list) \<Rightarrow> string option \<Rightarrow> string option \<Rightarrow>
   payload option \<Rightarrow> effect list \<times> reply promise" where
  "broadcast this network path http_method body =
     (let options = (case http_method of
                       None \<Rightarrow> (''GET'', NoBody)
                     | Some m \<Rightarrow> if m = [] then (''GET'', NoBody)
                                else (m, case body of None \<Rightarrow> NoBody | Some p \<Rightarrow> Json p));
          requests = map (\<lambda>n. Fetch (node_url n path) (fst options) (snd options)) (nodes this);
          st = deliver (F this) (map race (network requests))
      in (requests, promise_of (settled st)))"

section \<open>\<open>_path\<close>, \<open>lookup\<close> and \<open>upload\<close> of \<open>PBFTClient\<close> (\<open>unnamed/part_000\<close>, second document)\<close>

text \<open>
  \<open>encodeURIComponent\<close> on the bytes of a string: letters, digits and \<open>- _ . ! ~ * ' ( )\<close>
  stay, every other byte becomes \<open>%XX\<close>.
\<close>

definition unreserved :: "char \<Rightarrow> bool" where
  "unreserved c \<longleftrightarrow>
     c \<in> set (''ABCDEFGHIJKLMNOPQRSTUVWXYZabcdefghijklmnopqrstuvwxyz0123456789-_.!~*()'' @ [CHR 0x27])"

definition hex_char :: "nat \<Rightarrow> char" where
  "hex_char d = ''0123456789ABCDEF'' ! d"

definition encodeURIComponent :: "string \<Rightarrow> string" where
  "encodeURIComponent s =
     concat (map (\<lambda>c. if unreserved c then [c]
                       else [CHR ''%'', hex_char (of_char c div 16), hex_char (of_char c mod 16)]) s)"

text \<open>\<open>_path(email)\<close>: an empty email is logged and gives \<open>null\<close>.\<close>

definition PBFTClient_path :: "string \<Rightarrow> string option" where
  "PBFTClient_path email =
     (if email \<noteq> [] then Some (''?name='' @ encodeURIComponent email) else None)"

text \<open>
  What a workflow takes from its collaborators: what the nodes' fetches do for the requests
  sent, \<open>Date.now()\<close>, the keys \<open>openpgp.key.readArmored\<close> reads, the answers to the two
  prompts (\<open>None\<close> is a cancelled prompt), \<open>pgpModel.unlockKey\<close>, the detached signature of
  \<open>openpgp.sign\<close>, the cluster document behind \<open>config/cluster.json\<close>, and \<open>JSON.parse\<close>
  (\<open>None\<close> where it throws).
\<close>

record pgp_key =
  fingerprint :: string
  address :: string

record environment =
  env_network :: "effect list \<Rightarrow> node_reply list"
  env_now :: nat
  env_readArmored :: "string \<Rightarrow> pgp_key list"
  env_passphrase :: "string option"
  env_unlockKey :: "pgp_key \<Rightarrow> string option \<Rightarrow> pgp_key promise"
  env_sign :: "payload \<Rightarrow> pgp_key \<Rightarrow> string promise"
  env_signature :: "string option"
  env_config :: "node list promise"
  env_JSON_parse :: "string \<Rightarrow> json_value option"

text \<open>The record \<open>lookup\<close> builds around the body found; the other fields are fixed.\<close>

record userId =
  uid_name :: string
  uid_email :: string
  uid_verified :: bool

record credential =
  keyId :: string
  cred_fingerprint :: string
  userIds :: "userId list"
  created :: string
  uploaded :: string
  algorithm :: string
  keySize :: nat
  publicKeyArmored :: json_value

text \<open>\<open>lookup(email)\<close>: the \<open>catch\<close> logs and throws \<open>e\<close> again.\<close>

definition lookup :: "PBFTClient \<Rightarrow> environment \<Rightarrow> string \<Rightarrow> effect list \<times> credential promise" where
  "lookup this env email =
     (let (requests, r) = broadcast this (env_network env) (PBFTClient_path email) None None
      in (requests,
          case r of
            Fulfilled (c, t, b) \<Rightarrow>
              Fulfilled \<lparr>keyId = ''keyid'', cred_fingerprint = ''fingerprint'',
                         userIds = [\<lparr>uid_name = ''name'', uid_email = email, uid_verified = True\<rparr>],
                         created = ''2017-12-10T03: 03: 20.763Z'',
                         uploaded = ''2017-12-10T03: 03: 20.763Z'',
                         algorithm = ''rsa_encrypt_sign'', keySize = 4096,
                         publicKeyArmored = b\<rparr>
          | Rejected e \<Rightarrow> Rejected e
          | Pending \<Rightarrow> Pending))"

definition genPayload :: "environment \<Rightarrow> string \<Rightarrow> string \<Rightarrow> payload" where
  "genPayload env email publicKey =
     \<lparr>payload_alias = email, payload_key = publicKey, payload_timestamp = env_now env,
      payload_signature = None\<rparr>"

definition appendSignature :: "payload \<Rightarrow> string option \<Rightarrow> payload" where
  "appendSignature p s = p\<lparr>payload_signature := Some s\<rparr>"

definition signPayload :: "environment \<Rightarrow> payload \<Rightarrow> pgp_key \<Rightarrow> payload promise" where
  "signPayload env p k =
     (case env_sign env p k of
        Fulfilled s \<Rightarrow> Fulfilled (appendSignature p (Some s))
      | Rejected e \<Rightarrow> Rejected e
      | Pending \<Rightarrow> Pending)"

text \<open>
  Modelled from the spec: the module \<open>keyring\<close> (the Local Credential Store) is not among
  the sources; it offers query-by-identity and remove-by-fingerprint. The store is the list
  of the private keys it holds.
\<close>

type_synonym keyring = "pgp_key list"

definition getKeyByAddress :: "keyring \<Rightarrow> string \<Rightarrow> pgp_key list" where
  "getKeyByAddress ring email = filter (\<lambda>k. address k = email) ring"

definition removeKey :: "keyring \<Rightarrow> string \<Rightarrow> keyring" where
  "removeKey ring fp = filter (\<lambda>k. fingerprint k \<noteq> fp) ring"

definition ownership_error :: "string \<Rightarrow> thrown" where
  "ownership_error email =
     Error (''You do not own the key for the email '' @ email @ '' so you cannot update it.'')"

text \<open>
  \<open>findPrivateKey(email, exclude)\<close>, called inside a \<open>then\<close>, so that what it throws rejects
  the chain. When \<open>readArmored\<close> finds no key, \<open>excludeKey\<close> is \<open>undefined\<close> and the filter
  callback throws a \<open>TypeError\<close> on the first key it is given.
\<close>

definition findPrivateKey ::
  "environment \<Rightarrow> keyring \<Rightarrow> string \<Rightarrow> string \<Rightarrow> effect list \<times> pgp_key promise" where
  "findPrivateKey env ring email exclude =
     (let lockedKeys = getKeyByAddress ring email in
      case env_readArmored env exclude of
        [] \<Rightarrow>
          if lockedKeys = [] then ([], Rejected (ownership_error email))
          else ([], Rejected TypeError)
      | excludeKey # _ \<Rightarrow>
          (case filter (\<lambda>k. fingerprint k \<noteq> fingerprint excludeKey) lockedKeys of
             [] \<Rightarrow> ([], Rejected (ownership_error email))
           | lockedKey # _ \<Rightarrow>
               ([PromptPassphrase], env_unlockKey env lockedKey (env_passphrase env))))"

text \<open>\<open>typeof e === "string" && e.startsWith(404)\<close>.\<close>

definition not_found :: "thrown \<Rightarrow> bool" where
  "not_found e = (case e of Str s \<Rightarrow> take 3 s = ''404'' | _ \<Rightarrow> False)"

text \<open>The handler of the last \<open>catch\<close> of \<open>upload\<close>.\<close>

definition upload_catch ::
  "PBFTClient \<Rightarrow> environment \<Rightarrow> string \<Rightarrow> string \<Rightarrow> thrown \<Rightarrow> effect list \<times> reply promise" where
  "upload_catch this env email publicKey e =
     (if not_found e then
        (let signature = env_signature env;
             (requests, r) = broadcast this (env_network env) (Some []) (Some ''POST'')
                               (Some (appendSignature (genPayload env email publicKey) signature))
         in (PromptSignature # requests,
             case r of
               Fulfilled x \<Rightarrow> Fulfilled x
             | Rejected e' \<Rightarrow> Rejected (Message e')
             | Pending \<Rightarrow> Pending))
      else ([], Rejected e))"

text \<open>
  \<open>upload(options)\<close> with \<open>email = options.email\<close> and \<open>publicKey = options.publicKeyArmored\<close>.
  The result is the local keyring afterwards, what was done, and the promise returned.
\<close>

definition upload ::
  "PBFTClient \<Rightarrow> environment \<Rightarrow> keyring \<Rightarrow> string \<Rightarrow> string \<Rightarrow>
   keyring \<times> effect list \<times> reply promise" where
  "upload this env ring email publicKey =
     (let (e0, looked) = lookup this env email in
      case looked of
        Pending \<Rightarrow> (ring, e0, Pending)
      | Rejected e \<Rightarrow>
          (let (e4, p) = upload_catch this env email publicKey e in (ring, e0 @ e4, p))
      | Fulfilled _ \<Rightarrow>
          (let (e1, found) = findPrivateKey env ring email publicKey in
           case found of
             Pending \<Rightarrow> (ring, e0 @ e1, Pending)
           | Rejected e \<Rightarrow>
               (let (e4, p) = upload_catch this env email publicKey e in (ring, e0 @ e1 @ e4, p))
           | Fulfilled oldPrivateKey \<Rightarrow>
               (case signPayload env (genPayload env email publicKey) oldPrivateKey of
                  Pending \<Rightarrow> (ring, e0 @ e1, Pending)
                | Rejected e \<Rightarrow>
                    (let (e4, p) = upload_catch this env email publicKey e
                     in (ring, e0 @ e1 @ e4, p))
                | Fulfilled signedPayload \<Rightarrow>
                    (let (e3, put) = broadcast this (env_network env) (Some []) (Some ''PUT'')
                                       (Some signedPayload)
                     in case put of
                          Pending \<Rightarrow> (ring, e0 @ e1 @ e3, Pending)
                        | Fulfilled r \<Rightarrow>
                            (removeKey ring (fingerprint oldPrivateKey), e0 @ e1 @ e3, Fulfilled r)
                        | Rejected e \<Rightarrow>
                            (let (e4, p) = upload_catch this env email publicKey (Message e)
                             in (ring, e0 @ e1 @ e3 @ e4, p))))))"


text \<open>
  In the words of the specification: the credentials the Local Credential Store returns
  for the identity, excluding the fingerprint of the key being uploaded (\<open>None\<close> when no key
  can be read from the armored text, so that there is no fingerprint to exclude).
\<close>

definition eligible :: "environment \<Rightarrow> keyring \<Rightarrow> string \<Rightarrow> string \<Rightarrow> pgp_key list option" where
  "eligible env ring email publicKey =
     (case env_readArmored env publicKey of
        [] \<Rightarrow> None
      | newKey # _ \<Rightarrow>
          Some (filter (\<lambda>k. fingerprint k \<noteq> fingerprint newKey) (getKeyByAddress ring email)))"


section \<open>\<open>modules/pbftClient.js\<close> and \<open>modules/keyserver.js\<close>\<close>

text \<open>
  \<open>processResponse\<close> of \<open>modules/pbftClient.js\<close>: the keys have no separators, a Failure is
  counted at once under status and status text alone, and is rejected with the two
  separated by a space.
\<close>

definition modules_processResponse :: "nat \<Rightarrow> response \<Rightarrow> broadcast_state \<Rightarrow> broadcast_state" where
  "modules_processResponse thisF response st =
     (let status = status response; statusText = statusText response in
      if ok response then
        (case json_body response of
           None \<Rightarrow> st
         | Some body \<Rightarrow>
             (case toString body of
                None \<Rightarrow> st
              | Some body_string \<Rightarrow>
                  let res = tpl_num status @ tpl_str statusText @ body_string;
                      n = proxy_get (responseMap st) res + 1;
                      st1 = st\<lparr>responseMap := (responseMap st)(res \<mapsto> n)\<rparr>
                  in if n = thisF + 1 \<and> \<not> promiseResolved st1
                     then st1\<lparr>promiseResolved := True,
                              settled := settled st1 @ [Resolve status statusText body]\<rparr>
                     else st1))
      else
        (let key = tpl_num status @ tpl_str statusText;
             st1 = st\<lparr>responseMap := (responseMap st)(key \<mapsto> proxy_get (responseMap st) key + 1)\<rparr>
         in if proxy_get (responseMap st1) key = thisF + 1 \<and> \<not> promiseResolved st1
            then st1\<lparr>promiseResolved := True,
                     settled := settled st1 @ [Reject (tpl_num status @ '' '' @ tpl_str statusText)]\<rparr>
            else st1))"

definition modules_deliver :: "nat \<Rightarrow> response list \<Rightarrow> broadcast_state" where
  "modules_deliver thisF rs = foldl (\<lambda>st r. modules_processResponse thisF r st) initial_state rs"

text \<open>
  The same rule in the words of the specification for this revision: a Failure arrives as
  soon as the object does and its body is not read (it is empty here); the key runs the
  fields together; a Failure key rejects with status and status text separated by a space.
\<close>

definition modules_outcome_of :: "response \<Rightarrow> outcome option" where
  "modules_outcome_of r =
     (if ok r then
        (case json_body r of
           None \<Rightarrow> None
         | Some b \<Rightarrow> (case toString b of
                        None \<Rightarrow> None
                      | Some s \<Rightarrow> Some (Success (status r) (statusText r) b)))
      else Some (Failure (status r) (statusText r) []))"

fun modules_ResponseKey :: "outcome \<Rightarrow> string" where
  "modules_ResponseKey (Success c t b) = tpl_num c @ tpl_str t @ body_text b"
| "modules_ResponseKey (Failure c t b) = tpl_num c @ tpl_str t"

fun modules_QuorumResult :: "outcome \<Rightarrow> settlement" where
  "modules_QuorumResult (Success c t b) = Resolve c t b"
| "modules_QuorumResult (Failure c t b) = Reject (tpl_num c @ '' '' @ tpl_str t)"

definition modules_outcomes :: "response list \<Rightarrow> outcome list" where
  "modules_outcomes rs = List.map_filter modules_outcome_of rs"

text \<open>
  \<open>_broadcast(path, method, body)\<close> of \<open>modules/pbftClient.js\<close>:
  \<open>body ? {method, body} : {method: "GET"}\<close>; a method left undefined is the default \<open>GET\<close>
  of \<open>fetch\<close>.
\<close>

definition modules_broadcast ::
  "PBFTClient \<Rightarrow> (effect list \<Rightarrow> node_reply list) \<Rightarrow> string option \<Rightarrow> string option \<Rightarrow>
   string option \<Rightarrow> effect list \<times> reply promise" where
  "modules_broadcast this network path http_method body =
     (let options = (case body of
                       None \<Rightarrow> (''GET'', NoBody)
                     | Some b \<Rightarrow> if b = [] then (''GET'', NoBody)
                                else (case http_method of None \<Rightarrow> ''GET'' | Some m \<Rightarrow> m, Text b));
          requests = map (\<lambda>n. Fetch (node_url n path) (fst options) (snd options)) (nodes this);
          st = modules_deliver (F this) (map race (network requests))
      in (requests, promise_of (settled st)))"

text \<open>\<open>lookup(email)\<close> of \<open>modules/pbftClient.js\<close>: \<open>then\<close> returns \<open>r\<close>, \<open>catch\<close> throws \<open>e\<close>.\<close>

definition modules_lookup :: "PBFTClient \<Rightarrow> environment \<Rightarrow> string \<Rightarrow> effect list \<times> reply promise" where
  "modules_lookup this env email =
     modules_broadcast this (env_network env) (PBFTClient_path email) None None"

text \<open>The object \<open>KeyServer\<close>: its one property is \<open>this._pbftClient\<close>.\<close>

record KeyServer =
  pbftClient :: "PBFTClient option"

text \<open>
  \<open>getPBFTClient()\<close>. Nothing in the class assigns \<open>this._pbftClient\<close>, so the object is
  returned as it was.
\<close>

definition getPBFTClient ::
  "KeyServer \<Rightarrow> environment \<Rightarrow> KeyServer \<times> effect list \<times> PBFTClient promise" where
  "getPBFTClient this env =
     (case pbftClient this of
        Some c \<Rightarrow> (this, [], Fulfilled c)
      | None \<Rightarrow>
          (this, [FetchConfig],
           case env_config env of
             Fulfilled config \<Rightarrow> Fulfilled (new_PBFTClient config)
           | Rejected e \<Rightarrow> Rejected e
           | Pending \<Rightarrow> Pending))"

text \<open>
  \<open>lookup(options)\<close> of \<open>KeyServer\<close>, with \<open>options.email\<close> (\<open>None\<close> when the property is
  missing). The last \<open>catch\<close> logs the error and returns nothing, so the promise is then
  fulfilled with \<open>undefined\<close> (\<open>Fulfilled None\<close>); that is also what becomes of a throw of
  \<open>JSON.parse\<close>, which first converts \<open>response.body\<close> to a string.
\<close>

definition KeyServer_lookup ::
  "KeyServer \<Rightarrow> environment \<Rightarrow> string option \<Rightarrow>
   KeyServer \<times> effect list \<times> json_value option promise" where
  "KeyServer_lookup this env options_email =
     (case options_email of
        None \<Rightarrow> (this, [], Rejected (Str ''Only lookup by email is currently supported by PBFT''))
      | Some email \<Rightarrow>
          if email = [] then
            (this, [], Rejected (Str ''Only lookup by email is currently supported by PBFT''))
          else
            (let (this1, e0, got) = getPBFTClient this env in
             case got of
               Pending \<Rightarrow> (this1, e0, Pending)
             | Rejected e \<Rightarrow> (this1, e0, Fulfilled None)
             | Fulfilled client \<Rightarrow>
                 (let (e1, looked) = modules_lookup client env email in
                  case looked of
                    Pending \<Rightarrow> (this1, e0 @ e1, Pending)
                  | Rejected e \<Rightarrow> (this1, e0 @ e1, Fulfilled None)
                  | Fulfilled (c, t, b) \<Rightarrow>
                      (this1, e0 @ e1,
                       case toString b of
                         None \<Rightarrow> Fulfilled None
                       | Some body_string \<Rightarrow> Fulfilled (env_JSON_parse env body_string)))))"


section \<open>The scenarios of the specification\<close>

text \<open>A cluster of four nodes (\<open>F = 1\<close>, threshold 2) and a Success answer with a given body.\<close>

definition four_nodes :: "node list" where
  "four_nodes = map (\<lambda>p. \<lparr>host = ''localhost'', clientport = p\<rparr>) [8080, 8081, 8082, 8083]"

definition success_with :: "string \<Rightarrow> response" where
  "success_with s = fetch_response 200 ''OK'' (Some (JStr s)) None"


text \<open>
  A network in which every one of four nodes answers after 25 ms: with one answer to a
  \<open>GET\<close>, with another to any other request.
\<close>

definition network_by_method :: "response \<Rightarrow> response \<Rightarrow> effect list \<Rightarrow> node_reply list" where
  "network_by_method on_get on_write requests =
     (case requests of
        Fetch url m b # _ \<Rightarrow>
          if m = ''GET''
          then [Some (25, on_get), Some (25, on_get), Some (25, on_get), Some (25, on_get)]
          else [Some (25, on_write), Some (25, on_write), Some (25, on_write), Some (25, on_write)]
      | _ \<Rightarrow> [])"

definition not_found_response :: response where
  "not_found_response = fetch_response 404 ''Not Found'' None (Some ''unknown alias'')"

definition old_key :: pgp_key where
  "old_key = \<lparr>fingerprint = ''AAAA'', address = ''alice@example.org''\<rparr>"

definition new_key :: pgp_key where
  "new_key = \<lparr>fingerprint = ''BBBB'', address = ''alice@example.org''\<rparr>"

definition read_new_key :: "string \<Rightarrow> pgp_key list" where
  "read_new_key armored = [new_key]"

definition unlock_any :: "pgp_key \<Rightarrow> string option \<Rightarrow> pgp_key promise" where
  "unlock_any k passphrase = Fulfilled k"

definition sign_any :: "payload \<Rightarrow> pgp_key \<Rightarrow> string promise" where
  "sign_any p k = Fulfilled ''SIGNED''"

definition parse_nothing :: "string \<Rightarrow> json_value option" where
  "parse_nothing s = None"

definition scenario_env :: "response \<Rightarrow> response \<Rightarrow> environment" where
  "scenario_env on_get on_write =
     \<lparr>env_network = network_by_method on_get on_write, env_now = 1512875000,
      env_readArmored = read_new_key, env_passphrase = Some ''secret'',
      env_unlockKey = unlock_any, env_sign = sign_any,
      env_signature = Some ''AUTHORITY'', env_config = Fulfilled four_nodes,
      env_JSON_parse = parse_nothing\<rparr>"

text \<open>Two Success answers whose bodies are different JSON objects.\<close>

definition object_A :: response where
  "object_A = fetch_response 200 ''OK'' (Some (JObj [(''key'', JStr ''A'')])) None"

definition object_B :: response where
  "object_B = fetch_response 200 ''OK'' (Some (JObj [(''key'', JStr ''B'')])) None"


text \<open>
  The identity is known to the cluster (every node answers a \<open>GET\<close> with the stored key),
  or unknown to it (every node answers a \<open>GET\<close> with 404); writes are accepted.
\<close>

definition found_env :: environment where
  "found_env = scenario_env (success_with ''STORED KEY'') (success_with ''committed'')"

definition not_found_env :: environment where
  "not_found_env = scenario_env not_found_response (success_with ''committed'')"

text \<open>A cluster of one node (\<open>F = 0\<close>, threshold 1) whose fetch never settles.\<close>

definition one_node :: "node list" where
  "one_node = [\<lparr>host = ''localhost'', clientport = 8080\<rparr>]"

definition silent_network :: "effect list \<Rightarrow> node_reply list" where
  "silent_network requests = [None]"

definition fresh_KeyServer :: KeyServer where
  "fresh_KeyServer = \<lparr>pbftClient = None\<rparr>"


text \<open>The identity is known, and every node refuses a write with status 500.\<close>

definition put_fails_env :: environment where
  "put_fails_env =
     scenario_env (success_with ''STORED KEY'')
       (fetch_response 500 ''Internal Server Error'' None (Some ''disk full''))"


section \<open>Properties of the quorum broadcast\<close>

text \<open>Counting votes, for any way of giving outcomes their keys and results.\<close>

lemma tally_snoc: "tally key k (seen @ [x]) = tally key k seen + (if key x = k then 1 else 0)"
  by (simp add: tally_def)

lemma tally_append: "tally key k (xs @ ys) = tally key k xs + tally key k ys"
  by (simp add: tally_def)

lemma count_vote_counts:
  "proxy_get (responseMap (count_vote key result thisF x st)) k =
     proxy_get (responseMap st) k + (if key x = k then 1 else 0)"
  by (simp add: count_vote_def Let_def proxy_get_def)

lemma count_vote_settled:
  "settled (count_vote key result thisF x st) =
     (if proxy_get (responseMap st) (key x) = thisF \<and> \<not> promiseResolved st
      then settled st @ [result x] else settled st)"
  by (simp add: count_vote_def Let_def)

lemma count_vote_latch:
  "promiseResolved (count_vote key result thisF x st) =
     (promiseResolved st \<or> proxy_get (responseMap st) (key x) = thisF)"
  by (auto simp add: count_vote_def Let_def)

lemma fold_votes:
  assumes "\<forall>k. proxy_get (responseMap st) k = tally key k seen"
  shows "(\<forall>k. proxy_get (responseMap (foldl (\<lambda>st x. count_vote key result thisF x st) st xs)) k =
              tally key k (seen @ xs))
       \<and> settled (foldl (\<lambda>st x. count_vote key result thisF x st) st xs) =
           (if promiseResolved st then settled st
            else settled st @ (case first_quorum key thisF seen xs of
                                 None \<Rightarrow> [] | Some x \<Rightarrow> [result x]))
       \<and> promiseResolved (foldl (\<lambda>st x. count_vote key result thisF x st) st xs) =
           (promiseResolved st \<or> first_quorum key thisF seen xs \<noteq> None)"
  using assms
proof (induction xs arbitrary: st seen)
  case Nil
  then show ?case by simp
next
  case (Cons x xs)
  let ?st1 = "count_vote key result thisF x st"
  have inv1: "\<forall>k. proxy_get (responseMap ?st1) k = tally key k (seen @ [x])"
    using Cons.prems by (simp add: count_vote_counts tally_snoc)
  note IH = Cons.IH [OF inv1]
  have q: "(tally key (key x) (seen @ [x]) = Suc thisF) = (proxy_get (responseMap st) (key x) = thisF)"
    using Cons.prems by (simp add: tally_snoc)
  show ?case
    using IH by (simp add: q count_vote_settled count_vote_latch)
qed

lemma initial_counts: "\<forall>k. proxy_get (responseMap initial_state) k = tally key k []"
  by (simp add: initial_state_def proxy_get_def tally_def)

lemma votes_summary:
  "(\<forall>k. proxy_get (responseMap (foldl (\<lambda>st x. count_vote key result thisF x st) initial_state xs)) k =
         tally key k xs)
   \<and> settled (foldl (\<lambda>st x. count_vote key result thisF x st) initial_state xs) =
        (case first_quorum key thisF [] xs of None \<Rightarrow> [] | Some x \<Rightarrow> [result x])
   \<and> promiseResolved (foldl (\<lambda>st x. count_vote key result thisF x st) initial_state xs) =
        (first_quorum key thisF [] xs \<noteq> None)"
  using fold_votes [OF initial_counts, of key result thisF xs]
  by (simp add: initial_state_def)

lemma foldl_map_filter:
  assumes "\<And>r st. step r st = (case f r of None \<Rightarrow> st | Some x \<Rightarrow> vote x st)"
  shows "foldl (\<lambda>st r. step r st) st rs = foldl (\<lambda>st x. vote x st) st (List.map_filter f rs)"
proof (induction rs arbitrary: st)
  case Nil
  show ?case by (simp add: List.map_filter_simps)
next
  case (Cons r rs)
  have "foldl (\<lambda>st r. step r st) (step r st) rs =
        foldl (\<lambda>st x. vote x st) (step r st) (List.map_filter f rs)"
    by (rule Cons.IH)
  also have "\<dots> = foldl (\<lambda>st x. vote x st) st (List.map_filter f (r # rs))"
    by (cases "f r") (simp_all add: List.map_filter_simps assms)
  finally show ?case by simp
qed

lemma first_quorum_None_iff:
  assumes "\<forall>k. tally key k seen \<le> thisF"
  shows "first_quorum key thisF seen xs = None \<longleftrightarrow> (\<forall>k. tally key k (seen @ xs) \<le> thisF)"
  using assms
proof (induction xs arbitrary: seen)
  case Nil
  then show ?case by simp
next
  case (Cons x xs)
  show ?case
  proof (cases "tally key (key x) (seen @ [x]) = thisF + 1")
    case True
    have "tally key (key x) (seen @ x # xs) = tally key (key x) (seen @ [x]) + tally key (key x) xs"
      using tally_append [of key "key x" "seen @ [x]" xs] by simp
    with True have "\<not> tally key (key x) (seen @ x # xs) \<le> thisF" by simp
    with True show ?thesis by auto
  next
    case False
    have inv: "\<forall>k. tally key k (seen @ [x]) \<le> thisF"
    proof
      fix k
      show "tally key k (seen @ [x]) \<le> thisF"
        using False Cons.prems [rule_format, of k] by (cases "key x = k") (auto simp add: tally_snoc)
    qed
    show ?thesis
      using False Cons.IH [OF inv] by simp
  qed
qed

lemma first_quorum_append:
  "first_quorum key thisF seen (xs @ ys) =
     (case first_quorum key thisF seen xs of
        None \<Rightarrow> first_quorum key thisF (seen @ xs) ys
      | Some x \<Rightarrow> Some x)"
  by (induction xs arbitrary: seen) (simp_all split: option.splits)

lemma first_quorum_Some_iff:
  assumes "\<forall>k. tally key k seen \<le> thisF"
  shows "first_quorum key thisF seen xs = Some x \<longleftrightarrow>
    (\<exists>pre post. xs = pre @ x # post \<and> tally key (key x) (seen @ pre) = thisF
        \<and> (\<forall>k. tally key k (seen @ pre) \<le> thisF))"
  using assms
proof (induction xs arbitrary: seen)
  case Nil
  then show ?case by simp
next
  case (Cons y ys)
  show ?case
  proof (cases "tally key (key y) (seen @ [y]) = thisF + 1")
    case True
    have big: "\<not> tally key (key y) (seen @ y # pre') \<le> thisF" for pre'
      using True tally_append [of key "key y" "seen @ [y]" pre'] by simp
    have "(\<exists>pre post. y # ys = pre @ x # post \<and> tally key (key x) (seen @ pre) = thisF
        \<and> (\<forall>k. tally key k (seen @ pre) \<le> thisF)) \<longleftrightarrow> x = y"
    proof
      assume "\<exists>pre post. y # ys = pre @ x # post \<and> tally key (key x) (seen @ pre) = thisF
        \<and> (\<forall>k. tally key k (seen @ pre) \<le> thisF)"
      then obtain pre post where h: "y # ys = pre @ x # post" "\<forall>k. tally key k (seen @ pre) \<le> thisF"
        by blast
      show "x = y"
      proof (cases pre)
        case Nil
        with h show ?thesis by simp
      next
        case (Cons a pre')
        with h have "a = y" by simp
        with Cons h(2) big [of pre'] show ?thesis by auto
      qed
    next
      assume "x = y"
      then have "y # ys = [] @ x # ys \<and> tally key (key x) (seen @ []) = thisF
        \<and> (\<forall>k. tally key k (seen @ []) \<le> thisF)"
        using True Cons.prems by (simp add: tally_snoc)
      then show "\<exists>pre post. y # ys = pre @ x # post \<and> tally key (key x) (seen @ pre) = thisF
        \<and> (\<forall>k. tally key k (seen @ pre) \<le> thisF)" by blast
    qed
    with True show ?thesis by auto
  next
    case False
    have inv: "\<forall>k. tally key k (seen @ [y]) \<le> thisF"
    proof
      fix k
      show "tally key k (seen @ [y]) \<le> thisF"
        using False Cons.prems [rule_format, of k] by (cases "key y = k") (auto simp add: tally_snoc)
    qed
    have "(\<exists>pre post. y # ys = pre @ x # post \<and> tally key (key x) (seen @ pre) = thisF
        \<and> (\<forall>k. tally key k (seen @ pre) \<le> thisF)) \<longleftrightarrow>
        (\<exists>pre post. ys = pre @ x # post \<and> tally key (key x) ((seen @ [y]) @ pre) = thisF
        \<and> (\<forall>k. tally key k ((seen @ [y]) @ pre) \<le> thisF))"
    proof
      assume "\<exists>pre post. y # ys = pre @ x # post \<and> tally key (key x) (seen @ pre) = thisF
        \<and> (\<forall>k. tally key k (seen @ pre) \<le> thisF)"
      then obtain pre post where h: "y # ys = pre @ x # post" "tally key (key x) (seen @ pre) = thisF"
         "\<forall>k. tally key k (seen @ pre) \<le> thisF"
        by blast
      show "\<exists>pre post. ys = pre @ x # post \<and> tally key (key x) ((seen @ [y]) @ pre) = thisF
        \<and> (\<forall>k. tally key k ((seen @ [y]) @ pre) \<le> thisF)"
      proof (cases pre)
        case Nil
        with h have "x = y" "tally key (key y) seen = thisF" by simp_all
        with False show ?thesis by (simp add: tally_snoc)
      next
        case (Cons a pre')
        with h have "a = y" "ys = pre' @ x # post" by simp_all
        with Cons h show ?thesis by auto
      qed
    next
      assume "\<exists>pre post. ys = pre @ x # post \<and> tally key (key x) ((seen @ [y]) @ pre) = thisF
        \<and> (\<forall>k. tally key k ((seen @ [y]) @ pre) \<le> thisF)"
      then obtain pre post where h: "ys = pre @ x # post" "tally key (key x) (seen @ y # pre) = thisF"
         "\<forall>k. tally key k (seen @ y # pre) \<le> thisF"
        by auto
      then have "y # ys = (y # pre) @ x # post \<and> tally key (key x) (seen @ (y # pre)) = thisF
        \<and> (\<forall>k. tally key k (seen @ (y # pre)) \<le> thisF)" by simp
      then show "\<exists>pre post. y # ys = pre @ x # post \<and> tally key (key x) (seen @ pre) = thisF
        \<and> (\<forall>k. tally key k (seen @ pre) \<le> thisF)" by blast
    qed
    with False Cons.IH [OF inv] show ?thesis by simp
  qed
qed

lemma first_quorum_from_start:
  "first_quorum key thisF [] xs = Some x \<longleftrightarrow>
    (\<exists>pre post. xs = pre @ x # post \<and> tally key (key x) pre = thisF
        \<and> (\<forall>k. tally key k pre \<le> thisF))"
  using first_quorum_Some_iff [of key "[]" thisF xs x] by (simp add: tally_def)

lemma quorum_exists_iff:
  "first_quorum key thisF [] xs \<noteq> None \<longleftrightarrow> (\<exists>k. thisF + 1 \<le> tally key k xs)"
  using first_quorum_None_iff [of key "[]" thisF xs]
  by (auto simp add: tally_def not_le Suc_le_eq)

text \<open>The two revisions of \<open>processResponse\<close> as vote counting.\<close>

lemma processResponse_outcome:
  "processResponse thisF r st =
     (case outcome_of r of None \<Rightarrow> st | Some x \<Rightarrow> count_vote ResponseKey QuorumResult thisF x st)"
  by (cases "text_body r"; cases "json_body r")
     (auto simp add: processResponse_def outcome_of_def count_vote_def Let_def proxy_get_def
        body_text_def split: option.splits)

lemma modules_processResponse_outcome:
  "modules_processResponse thisF r st =
     (case modules_outcome_of r of
        None \<Rightarrow> st
      | Some x \<Rightarrow> count_vote modules_ResponseKey modules_QuorumResult thisF x st)"
  by (cases "json_body r")
     (auto simp add: modules_processResponse_def modules_outcome_of_def count_vote_def Let_def
        proxy_get_def body_text_def split: option.splits)

lemma deliver_votes:
  "deliver thisF rs =
     foldl (\<lambda>st x. count_vote ResponseKey QuorumResult thisF x st) initial_state (outcomes rs)"
  unfolding deliver_def outcomes_def
  by (rule foldl_map_filter) (rule processResponse_outcome)

lemma modules_deliver_votes:
  "modules_deliver thisF rs =
     foldl (\<lambda>st x. count_vote modules_ResponseKey modules_QuorumResult thisF x st) initial_state
       (modules_outcomes rs)"
  unfolding modules_deliver_def modules_outcomes_def
  by (rule foldl_map_filter) (rule modules_processResponse_outcome)

lemma deliver_summary:
  "(\<forall>k. proxy_get (responseMap (deliver thisF rs)) k = tally ResponseKey k (outcomes rs))
   \<and> settled (deliver thisF rs) =
        (case first_quorum ResponseKey thisF [] (outcomes rs) of
           None \<Rightarrow> [] | Some x \<Rightarrow> [QuorumResult x])
   \<and> promiseResolved (deliver thisF rs) = (first_quorum ResponseKey thisF [] (outcomes rs) \<noteq> None)"
  unfolding deliver_votes by (rule votes_summary)

lemma modules_deliver_summary:
  "(\<forall>k. proxy_get (responseMap (modules_deliver thisF rs)) k =
         tally modules_ResponseKey k (modules_outcomes rs))
   \<and> settled (modules_deliver thisF rs) =
        (case first_quorum modules_ResponseKey thisF [] (modules_outcomes rs) of
           None \<Rightarrow> [] | Some x \<Rightarrow> [modules_QuorumResult x])
   \<and> promiseResolved (modules_deliver thisF rs) =
        (first_quorum modules_ResponseKey thisF [] (modules_outcomes rs) \<noteq> None)"
  unfolding modules_deliver_votes by (rule votes_summary)

lemma outcomes_append: "outcomes (xs @ ys) = outcomes xs @ outcomes ys"
  by (simp add: outcomes_def List.map_filter_def)

lemma modules_outcomes_append: "modules_outcomes (xs @ ys) = modules_outcomes xs @ modules_outcomes ys"
  by (simp add: modules_outcomes_def List.map_filter_def)

lemma settled_stable:
  "promiseResolved (deliver thisF rs) \<Longrightarrow>
     settled (deliver thisF (rs @ later)) = settled (deliver thisF rs)"
  using deliver_summary [of thisF rs] deliver_summary [of thisF "rs @ later"]
  by (auto simp add: outcomes_append first_quorum_append split: option.splits)

lemma modules_settled_stable:
  "promiseResolved (modules_deliver thisF rs) \<Longrightarrow>
     settled (modules_deliver thisF (rs @ later)) = settled (modules_deliver thisF rs)"
  using modules_deliver_summary [of thisF rs] modules_deliver_summary [of thisF "rs @ later"]
  by (auto simp add: modules_outcomes_append first_quorum_append split: option.splits)

lemma fault_tolerance_closed: "fault_tolerance N = (N + 1) div 3"
proof -
  have "\<lceil>(of_int (int N - 1) :: rat) / 3\<rceil> = \<lceil>(of_int (int N - 1) :: rat) / of_int 3\<rceil>"
    by simp
  also have "\<dots> = - (- (int N - 1) div 3)"
    by (rule ceiling_divide_eq_div)
  finally have e: "\<lceil>(of_int (int N - 1) :: rat) / 3\<rceil> = - (- (int N - 1) div 3)" .
  have "nat (- (- (int N - 1) div 3)) = (N + 1) div 3"
    by linarith
  then show ?thesis
    unfolding fault_tolerance_def e .
qed

lemma fault_tolerance_examples:
  "fault_tolerance 1 = 0 \<and> fault_tolerance 4 = 1 \<and> fault_tolerance 7 = 2 \<and> fault_tolerance 10 = 3"
  by (simp add: fault_tolerance_closed)

lemma broadcast_promise:
  "snd (broadcast cl network path m body) =
     promise_of (settled (deliver (F cl) (map race (network (fst (broadcast cl network path m body))))))"
  by (simp add: broadcast_def Let_def)

lemma modules_broadcast_promise:
  "snd (modules_broadcast cl network path m body) =
     promise_of (settled (modules_deliver (F cl)
        (map race (network (fst (modules_broadcast cl network path m body))))))"
  by (simp add: modules_broadcast_def Let_def)

lemmas eval_simps = deliver_def processResponse_def Let_def proxy_get_def initial_state_def
  fetch_response_def timeout_rejection_def fetch_failure_def tpl_num_def tpl_str_def
  show_nat.simps digit_char_def new_PBFTClient_def fault_tolerance_closed four_nodes_def
  success_with_def one_node_def

lemma settled_at_most_one: "length (settled (deliver thisF rs)) \<le> 1"
  using deliver_summary [of thisF rs] by (simp split: option.splits)

lemma modules_settled_at_most_one: "length (settled (modules_deliver thisF rs)) \<le> 1"
  using modules_deliver_summary [of thisF rs] by (simp split: option.splits)

lemma part_000_rule:
  "length (settled (deliver thisF rs)) \<le> 1
   \<and> settled (deliver thisF rs) =
       (case first_quorum ResponseKey thisF [] (outcomes rs) of
          None \<Rightarrow> []
        | Some (Success c t b) \<Rightarrow> [Resolve c t b]
        | Some (Failure c t b) \<Rightarrow> [Reject (ResponseKey (Failure c t b))])
   \<and> (promiseResolved (deliver thisF rs) \<longleftrightarrow>
         (\<exists>k. thisF + 1 \<le> tally ResponseKey k (outcomes rs)))
   \<and> (\<forall>k. proxy_get (responseMap (deliver thisF rs)) k = tally ResponseKey k (outcomes rs))
   \<and> (promiseResolved (deliver thisF rs) \<longrightarrow>
         settled (deliver thisF (rs @ later)) = settled (deliver thisF rs))"
proof -
  have s: "settled (deliver thisF rs) =
       (case first_quorum ResponseKey thisF [] (outcomes rs) of
          None \<Rightarrow> []
        | Some (Success c t b) \<Rightarrow> [Resolve c t b]
        | Some (Failure c t b) \<Rightarrow> [Reject (ResponseKey (Failure c t b))])"
    using deliver_summary [of thisF rs]
    by (simp split: option.splits outcome.splits)
  have p: "promiseResolved (deliver thisF rs) \<longleftrightarrow>
         (\<exists>k. thisF + 1 \<le> tally ResponseKey k (outcomes rs))"
    using deliver_summary [of thisF rs] quorum_exists_iff [of ResponseKey thisF "outcomes rs"]
    by simp
  have c: "\<forall>k. proxy_get (responseMap (deliver thisF rs)) k = tally ResponseKey k (outcomes rs)"
    using deliver_summary [of thisF rs] by blast
  show ?thesis
    using s p c settled_at_most_one [of thisF rs] settled_stable [of thisF rs later]
    by blast
qed

lemma modules_rule:
  "length (settled (modules_deliver thisF rs)) \<le> 1
   \<and> settled (modules_deliver thisF rs) =
       (case first_quorum modules_ResponseKey thisF [] (modules_outcomes rs) of
          None \<Rightarrow> []
        | Some (Success c t b) \<Rightarrow> [Resolve c t b]
        | Some (Failure c t b) \<Rightarrow> [Reject (tpl_num c @ '' '' @ tpl_str t)])
   \<and> (promiseResolved (modules_deliver thisF rs) \<longleftrightarrow>
         (\<exists>k. thisF + 1 \<le> tally modules_ResponseKey k (modules_outcomes rs)))
   \<and> (\<forall>k. proxy_get (responseMap (modules_deliver thisF rs)) k =
            tally modules_ResponseKey k (modules_outcomes rs))
   \<and> (promiseResolved (modules_deliver thisF rs) \<longrightarrow>
         settled (modules_deliver thisF (rs @ later)) = settled (modules_deliver thisF rs))"
proof -
  have s: "settled (modules_deliver thisF rs) =
       (case first_quorum modules_ResponseKey thisF [] (modules_outcomes rs) of
          None \<Rightarrow> []
        | Some (Success c t b) \<Rightarrow> [Resolve c t b]
        | Some (Failure c t b) \<Rightarrow> [Reject (tpl_num c @ '' '' @ tpl_str t)])"
    using modules_deliver_summary [of thisF rs]
    by (simp split: option.splits outcome.splits)
  have p: "promiseResolved (modules_deliver thisF rs) \<longleftrightarrow>
         (\<exists>k. thisF + 1 \<le> tally modules_ResponseKey k (modules_outcomes rs))"
    using modules_deliver_summary [of thisF rs]
      quorum_exists_iff [of modules_ResponseKey thisF "modules_outcomes rs"]
    by simp
  have c: "\<forall>k. proxy_get (responseMap (modules_deliver thisF rs)) k =
            tally modules_ResponseKey k (modules_outcomes rs)"
    using modules_deliver_summary [of thisF rs] by blast
  show ?thesis
    using s p c modules_settled_at_most_one [of thisF rs] modules_settled_stable [of thisF rs later]
    by blast
qed

text \<open>
  Claim C1 as stated fails on \<open>modules/pbftClient.js\<close>, where a Failure is not rejected with
  its key: in a cluster of one node (\<open>F = 0\<close>) a single 404 answer is counted under the key
  \<open>404Not Found\<close>, and the call is rejected with \<open>404 Not Found\<close>, under which nothing was
  counted.
\<close>

theorem modules_rejects_with_a_string_that_is_not_the_key:
  "modules_ResponseKey (Failure (Some 404) (Some ''Not Found'') []) = ''404Not Found''
   \<and> proxy_get (responseMap (modules_deliver (F (new_PBFTClient one_node)) [not_found_response]))
        ''404Not Found'' = 1
   \<and> proxy_get (responseMap (modules_deliver (F (new_PBFTClient one_node)) [not_found_response]))
        ''404 Not Found'' = 0
   \<and> settled (modules_deliver (F (new_PBFTClient one_node)) [not_found_response]) =
        [Reject ''404 Not Found'']"
  by (simp add: modules_deliver_def modules_processResponse_def not_found_response_def eval_simps)

text \<open>
  Claim C1, amended. For a cluster of \<open>N\<close> nodes with \<open>F = ceil((N-1)/3)\<close>, in both
  revisions of \<open>_broadcast\<close>, a call invokes \<open>resolve\<close> or \<open>reject\<close> at most once, and does so
  exactly when the running count of some key first reaches \<open>F + 1\<close>: the outcome whose
  arrival brings its key to \<open>F + 1\<close> while every count before it was at most \<open>F\<close> decides the
  call. A Success resolves with its status, status text and body. A Failure rejects with
  its error string: in \<open>unnamed/part_000\<close> that is its key
  \<open>{status} {statusText} {body}\<close>; in \<open>modules/pbftClient.js\<close> it is
  \<open>{status} {statusText}\<close>, where the key is \<open>{status}{statusText}\<close>. Every outcome is
  counted, also after the call has settled, and those later outcomes change nothing in
  what was resolved or rejected.
\<close>

theorem broadcast_settles_at_first_quorum:
  fixes ns :: "node list" and rs later :: "response list"
  shows
    "(length (settled (deliver (F (new_PBFTClient ns)) rs)) \<le> 1
      \<and> settled (deliver (F (new_PBFTClient ns)) rs) =
          (case first_quorum ResponseKey (fault_tolerance (length ns)) [] (outcomes rs) of
             None \<Rightarrow> []
           | Some (Success c t b) \<Rightarrow> [Resolve c t b]
           | Some (Failure c t b) \<Rightarrow> [Reject (ResponseKey (Failure c t b))])
      \<and> (promiseResolved (deliver (F (new_PBFTClient ns)) rs) \<longleftrightarrow>
            (\<exists>k. fault_tolerance (length ns) + 1 \<le> tally ResponseKey k (outcomes rs)))
      \<and> (\<forall>k. proxy_get (responseMap (deliver (F (new_PBFTClient ns)) rs)) k =
               tally ResponseKey k (outcomes rs))
      \<and> (promiseResolved (deliver (F (new_PBFTClient ns)) rs) \<longrightarrow>
            settled (deliver (F (new_PBFTClient ns)) (rs @ later)) =
            settled (deliver (F (new_PBFTClient ns)) rs))
      \<and> snd (broadcast (new_PBFTClient ns) network path http_method body) =
          promise_of (settled (deliver (fault_tolerance (length ns))
            (map race (network (fst (broadcast (new_PBFTClient ns) network path http_method body)))))))
   \<and> (length (settled (modules_deliver (F (new_PBFTClient ns)) rs)) \<le> 1
      \<and> settled (modules_deliver (F (new_PBFTClient ns)) rs) =
          (case first_quorum modules_ResponseKey (fault_tolerance (length ns)) []
                  (modules_outcomes rs) of
             None \<Rightarrow> []
           | Some (Success c t b) \<Rightarrow> [Resolve c t b]
           | Some (Failure c t b) \<Rightarrow> [Reject (tpl_num c @ '' '' @ tpl_str t)])
      \<and> (promiseResolved (modules_deliver (F (new_PBFTClient ns)) rs) \<longleftrightarrow>
            (\<exists>k. fault_tolerance (length ns) + 1 \<le>
                   tally modules_ResponseKey k (modules_outcomes rs)))
      \<and> (\<forall>k. proxy_get (responseMap (modules_deliver (F (new_PBFTClient ns)) rs)) k =
               tally modules_ResponseKey k (modules_outcomes rs))
      \<and> (promiseResolved (modules_deliver (F (new_PBFTClient ns)) rs) \<longrightarrow>
            settled (modules_deliver (F (new_PBFTClient ns)) (rs @ later)) =
            settled (modules_deliver (F (new_PBFTClient ns)) rs))
      \<and> snd (modules_broadcast (new_PBFTClient ns) network path http_method text) =
          promise_of (settled (modules_deliver (fault_tolerance (length ns))
            (map race (network
               (fst (modules_broadcast (new_PBFTClient ns) network path http_method text)))))))
   \<and> (\<forall>key xs x. first_quorum key (fault_tolerance (length ns)) [] xs = Some x \<longleftrightarrow>
         (\<exists>pre post. xs = pre @ x # post
            \<and> tally key (key x) pre = fault_tolerance (length ns)
            \<and> (\<forall>k. tally key k pre \<le> fault_tolerance (length ns))))"
proof -
  have f: "F (new_PBFTClient ns) = fault_tolerance (length ns)"
    by (simp add: new_PBFTClient_def)
  have q: "\<forall>key xs x. first_quorum key (fault_tolerance (length ns)) [] xs = Some x \<longleftrightarrow>
         (\<exists>pre post. xs = pre @ x # post
            \<and> tally key (key x) pre = fault_tolerance (length ns)
            \<and> (\<forall>k. tally key k pre \<le> fault_tolerance (length ns)))"
    using first_quorum_from_start by blast
  show ?thesis
    unfolding f
    using q part_000_rule [of "fault_tolerance (length ns)" rs later]
      modules_rule [of "fault_tolerance (length ns)" rs later]
      broadcast_promise [of "new_PBFTClient ns" network path http_method body, unfolded f]
      modules_broadcast_promise [of "new_PBFTClient ns" network path http_method "text", unfolded f]
    by blast
qed

theorem broadcast_settles_at_first_quorum_witness:
  "promiseResolved (deliver (F (new_PBFTClient four_nodes))
      [success_with ''X'', success_with ''Y'', success_with ''X''])
   \<and> settled (deliver (F (new_PBFTClient four_nodes))
      ([success_with ''X'', success_with ''Y'', success_with ''X''] @ [timeout_rejection])) =
      [Resolve (Some 200) (Some ''OK'') (JStr ''X'')]
   \<and> promiseResolved (modules_deliver (F (new_PBFTClient four_nodes))
      [not_found_response, success_with ''X'', not_found_response])
   \<and> settled (modules_deliver (F (new_PBFTClient four_nodes))
      ([not_found_response, success_with ''X'', not_found_response] @ [success_with ''X''])) =
      [Reject ''404 Not Found'']"
  using broadcast_settles_at_first_quorum [of four_nodes
      "[success_with ''X'', success_with ''Y'', success_with ''X'']" "[timeout_rejection]"]
    broadcast_settles_at_first_quorum [of four_nodes
      "[not_found_response, success_with ''X'', not_found_response]" "[success_with ''X'']"]
  by (simp add: eval_simps modules_deliver_def modules_processResponse_def not_found_response_def)

text \<open>
  Claim C2. When the arriving outcomes split so that no ResponseKey reaches a count of
  \<open>F + 1\<close>, the call has neither resolved nor rejected after any number of arrivals, and
  the promise of the broadcast stays pending.
\<close>

theorem split_vote_never_settles:
  assumes "\<forall>k. tally ResponseKey k (outcomes rs) \<le> F cl"
  shows "(\<forall>n. settled (deliver (F cl) (take n rs)) = []
              \<and> \<not> promiseResolved (deliver (F cl) (take n rs)))
       \<and> (map race (network (fst (broadcast cl network path http_method body))) = rs
            \<longrightarrow> snd (broadcast cl network path http_method body) = Pending)"
proof -
  have none: "settled (deliver (F cl) (take n rs)) = [] \<and> \<not> promiseResolved (deliver (F cl) (take n rs))" for n
  proof -
    have "tally ResponseKey k (outcomes (take n rs)) \<le> F cl" for k
    proof -
      have "tally ResponseKey k (outcomes rs) =
              tally ResponseKey k (outcomes (take n rs)) + tally ResponseKey k (outcomes (drop n rs))"
        using outcomes_append [of "take n rs" "drop n rs"] by (simp add: tally_append [symmetric])
      then show ?thesis using assms [rule_format, of k] by simp
    qed
    then have "first_quorum ResponseKey (F cl) [] (outcomes (take n rs)) = None"
      using first_quorum_None_iff [of ResponseKey "[]" "F cl" "outcomes (take n rs)"]
      by (simp add: tally_def)
    then show ?thesis
      using deliver_summary [of "F cl" "take n rs"] by simp
  qed
  have "settled (deliver (F cl) rs) = []"
    using none [of "length rs"] by simp
  then have "map race (network (fst (broadcast cl network path http_method body))) = rs
            \<longrightarrow> snd (broadcast cl network path http_method body) = Pending"
    using broadcast_promise [of cl network path http_method body] by (simp add: promise_of_def)
  with none show ?thesis by blast
qed

theorem split_vote_never_settles_witness:
  "(\<forall>k. tally ResponseKey k
           (outcomes [success_with ''X'', success_with ''Y'', success_with ''Z'', timeout_rejection])
        \<le> F (new_PBFTClient four_nodes))
   \<and> snd (broadcast (new_PBFTClient four_nodes)
        (\<lambda>requests. [Some (120, success_with ''X''), Some (340, success_with ''Y''),
                      Some (90, success_with ''Z''), None])
        (Some ''?name=alice'') None None) = Pending"
proof -
  have h: "\<forall>k. tally ResponseKey k
             (outcomes [success_with ''X'', success_with ''Y'', success_with ''Z'', timeout_rejection])
        \<le> F (new_PBFTClient four_nodes)"
    by (auto simp add: tally_def outcomes_def List.map_filter_simps outcome_of_def body_text_def
          eval_simps)
  have r: "map race ((\<lambda>requests. [Some (120, success_with ''X''), Some (340, success_with ''Y''),
                      Some (90, success_with ''Z''), None])
            (fst (broadcast (new_PBFTClient four_nodes)
        (\<lambda>requests. [Some (120, success_with ''X''), Some (340, success_with ''Y''),
                      Some (90, success_with ''Z''), None])
        (Some ''?name=alice'') None None)))
       = [success_with ''X'', success_with ''Y'', success_with ''Z'', timeout_rejection]"
    by (simp add: race_def deadline_def)
  show ?thesis
    using h r split_vote_never_settles [OF h, of
        "\<lambda>requests. [Some (120, success_with ''X''), Some (340, success_with ''Y''),
                      Some (90, success_with ''Z''), None]"
        "Some ''?name=alice''" None None]
    by simp
qed


section \<open>Keys and votes\<close>

text \<open>
  Claim C3 says that two outcomes differing in status, status text or body never share a
  ResponseKey. The key is the template string \<open>`${status} ${statusText} ${body}`\<close>, and the
  string conversion of every parsed JSON object is \<open>[object Object]\<close>: in a cluster of four
  nodes, two Success answers with different object bodies are counted under one key, reach
  the threshold of two together, and the call resolves with the body of the second.
\<close>

theorem object_bodies_share_a_key:
  "json_body object_A \<noteq> json_body object_B
   \<and> proxy_get (responseMap (deliver (F (new_PBFTClient four_nodes)) [object_A, object_B]))
         ''200 OK [object Object]'' = 2
   \<and> settled (deliver (F (new_PBFTClient four_nodes)) [object_A, object_B]) =
         [Resolve (Some 200) (Some ''OK'') (JObj [(''key'', JStr ''B'')])]"
  by (simp add: eval_simps object_A_def object_B_def)

lemma timeout_outcome: "outcome_of timeout_rejection = Some (Failure (Some 520) (Some ''Request Timeout'') [])"
  by (simp add: outcome_of_def timeout_rejection_def)

lemma timeout_key: "ResponseKey (Failure (Some 520) (Some ''Request Timeout'') []) = ''520 Request Timeout ''"
  by (simp add: tpl_num_def tpl_str_def show_nat.simps digit_char_def)

text \<open>
  Claim C5 as stated fails in a cluster of one node (\<open>F = 0\<close>, threshold 1): when the node
  does not answer, its timeout alone rejects the call with \<open>520 Request Timeout \<close>.
\<close>

theorem single_timeout_rejects_the_call_of_one_node:
  "snd (broadcast (new_PBFTClient one_node) silent_network (Some ''?name=alice'') None None) =
     Rejected (Str ''520 Request Timeout '')"
  by (simp add: broadcast_def silent_network_def race_def promise_of_def eval_simps)

text \<open>
  Claim C5, amended. A node whose fetch has not settled when the timer fires after 7000 ms
  contributes the one object \<open>{status: 520, statusText: "Request Timeout"}\<close>, which is a
  Failure with empty body: it adds exactly one to the counter of the key
  \<open>520 Request Timeout \<close> and to no other. It reaches the caller only through the quorum
  rule: the call is rejected with that key exactly when this vote brings the counter to
  \<open>F + 1\<close> while the latch is open. So with \<open>F \<ge> 1\<close> (two nodes or more) the first timeout
  of a call never reaches the caller by itself; with one node (\<open>F = 0\<close>) it does.
\<close>

theorem timeout_counts_as_one_failure_vote:
  assumes "reply = None \<or> (\<exists>t r. reply = Some (t, r) \<and> 7000 < t)"
  shows "race reply = \<lparr>ok = False, status = Some 520, statusText = Some ''Request Timeout'',
                        json_body = None, text_body = Undefined\<rparr>
       \<and> outcome_of (race reply) = Some (Failure (Some 520) (Some ''Request Timeout'') [])
       \<and> (\<forall>k. proxy_get (responseMap (processResponse thisF (race reply) st)) k =
               proxy_get (responseMap st) k + (if k = ''520 Request Timeout '' then 1 else 0))
       \<and> promiseResolved (processResponse thisF (race reply) st) =
           (promiseResolved st \<or> proxy_get (responseMap st) ''520 Request Timeout '' = thisF)
       \<and> settled (processResponse thisF (race reply) st) =
           (if proxy_get (responseMap st) ''520 Request Timeout '' = thisF \<and> \<not> promiseResolved st
            then settled st @ [Reject ''520 Request Timeout '']
            else settled st)
       \<and> (1 \<le> thisF \<and> proxy_get (responseMap st) ''520 Request Timeout '' = 0 \<longrightarrow>
            settled (processResponse thisF (race reply) st) = settled st)
       \<and> (thisF = 0 \<and> proxy_get (responseMap st) ''520 Request Timeout '' = 0
            \<and> \<not> promiseResolved st \<longrightarrow>
            settled (processResponse thisF (race reply) st) =
              settled st @ [Reject ''520 Request Timeout ''])"
proof -
  have r: "race reply = timeout_rejection"
    using assms by (auto simp add: race_def deadline_def)
  have p: "processResponse thisF timeout_rejection st =
             count_vote ResponseKey QuorumResult thisF
               (Failure (Some 520) (Some ''Request Timeout'') []) st"
    by (simp add: processResponse_outcome timeout_outcome)
  have c1: "race reply = \<lparr>ok = False, status = Some 520, statusText = Some ''Request Timeout'',
                        json_body = None, text_body = Undefined\<rparr>"
    unfolding r by (simp add: timeout_rejection_def)
  have c2: "outcome_of (race reply) = Some (Failure (Some 520) (Some ''Request Timeout'') [])"
    unfolding r by (rule timeout_outcome)
  have c3: "\<forall>k. proxy_get (responseMap (processResponse thisF (race reply) st)) k =
               proxy_get (responseMap st) k + (if k = ''520 Request Timeout '' then 1 else 0)"
    unfolding r p by (auto simp add: count_vote_counts timeout_key simp del: ResponseKey.simps)
  have c4: "promiseResolved (processResponse thisF (race reply) st) =
           (promiseResolved st \<or> proxy_get (responseMap st) ''520 Request Timeout '' = thisF)"
    unfolding r p by (simp add: count_vote_latch timeout_key del: ResponseKey.simps)
  have c5: "settled (processResponse thisF (race reply) st) =
           (if proxy_get (responseMap st) ''520 Request Timeout '' = thisF \<and> \<not> promiseResolved st
            then settled st @ [Reject ''520 Request Timeout '']
            else settled st)"
    unfolding r p by (simp add: count_vote_settled timeout_key del: ResponseKey.simps)
  have c6: "1 \<le> thisF \<and> proxy_get (responseMap st) ''520 Request Timeout '' = 0 \<longrightarrow>
            settled (processResponse thisF (race reply) st) = settled st"
    unfolding c5 by simp
  have c7: "thisF = 0 \<and> proxy_get (responseMap st) ''520 Request Timeout '' = 0
            \<and> \<not> promiseResolved st \<longrightarrow>
            settled (processResponse thisF (race reply) st) =
              settled st @ [Reject ''520 Request Timeout '']"
    unfolding c5 by simp
  from c1 c2 c3 c4 c5 c6 c7 show ?thesis by blast
qed

theorem timeout_counts_as_one_failure_vote_witness:
  "race None = \<lparr>ok = False, status = Some 520, statusText = Some ''Request Timeout'',
                        json_body = None, text_body = Undefined\<rparr>
   \<and> settled (processResponse 1 (race None) initial_state) = []
   \<and> settled (processResponse 1 (race (Some (9000, success_with ''X'')))
         (processResponse 1 (race None) initial_state)) = [Reject ''520 Request Timeout '']
   \<and> settled (processResponse 0 (race None) initial_state) = [Reject ''520 Request Timeout '']"
  using timeout_counts_as_one_failure_vote [of None 1 initial_state]
    timeout_counts_as_one_failure_vote [of "Some (9000, success_with ''X'')" 1
      "processResponse 1 (race None) initial_state"]
    timeout_counts_as_one_failure_vote [of None 0 initial_state]
  by (simp add: eval_simps race_def deadline_def)


section \<open>The KeyServer facade\<close>

lemmas scenario_simps = scenario_env_def network_by_method_def not_found_response_def
  found_env_def not_found_env_def fresh_KeyServer_def old_key_def new_key_def
  read_new_key_def unlock_any_def sign_any_def parse_nothing_def

lemmas workflow_simps = broadcast_def modules_broadcast_def modules_deliver_def
  modules_processResponse_def modules_lookup_def lookup_def getPBFTClient_def
  KeyServer_lookup_def promise_of_def race_def deadline_def PBFTClient_path_def node_url_def
  upload_def upload_catch_def findPrivateKey_def signPayload_def genPayload_def appendSignature_def
  getKeyByAddress_def removeKey_def not_found_def ownership_error_def
  encodeURIComponent_def unreserved_def hex_char_def

lemma getPBFTClient_keeps_object: "fst (getPBFTClient ks env) = ks"
  by (simp add: getPBFTClient_def split: option.splits)

lemma KeyServer_lookup_keeps_object: "fst (KeyServer_lookup ks env options_email) = ks"
  by (auto simp add: KeyServer_lookup_def getPBFTClient_def Let_def
      split: option.splits promise.splits prod.splits)

text \<open>
  Claim C6 says that the cluster document is fetched once and the client built from it is
  kept for later calls. \<open>getPBFTClient\<close> tests \<open>this._pbftClient\<close>, but no statement
  assigns it: the object is the same after every call, and two lookups in a row on a new
  \<open>KeyServer\<close>, the first of which loads the document successfully, fetch it twice.
\<close>

theorem config_is_fetched_on_every_call:
  "pbftClient (fst (KeyServer_lookup fresh_KeyServer found_env (Some ''alice@example.org''))) = None
   \<and> count_list
        (fst (snd (KeyServer_lookup fresh_KeyServer found_env (Some ''alice@example.org''))) @
         fst (snd (KeyServer_lookup
                     (fst (KeyServer_lookup fresh_KeyServer found_env (Some ''alice@example.org'')))
                     found_env (Some ''alice@example.org''))))
        FetchConfig = 2"
  by (simp add: eval_simps scenario_simps workflow_simps)

text \<open>
  Claim C7. For an empty identity (the property is missing or is the empty string)
  \<open>lookup\<close> of \<open>KeyServer\<close> rejects at once with its validation message: the object is
  unchanged and nothing is fetched, neither the cluster document nor anything from a node.
\<close>

theorem empty_identity_rejected_locally:
  assumes "options_email = None \<or> options_email = Some []"
  shows "KeyServer_lookup ks env options_email =
           (ks, [], Rejected (Str ''Only lookup by email is currently supported by PBFT''))"
  using assms by (auto simp add: KeyServer_lookup_def)

theorem empty_identity_rejected_locally_witness:
  "KeyServer_lookup fresh_KeyServer found_env (Some []) =
     (fresh_KeyServer, [], Rejected (Str ''Only lookup by email is currently supported by PBFT''))"
  using empty_identity_rejected_locally [of "Some []" fresh_KeyServer found_env]
  by simp

text \<open>
  \<open>lookup\<close> of \<open>PBFTClient\<close> has no guard of its own: for an empty email \<open>_path\<close> gives \<open>null\<close>
  and the request still goes to every node.
\<close>

lemma client_lookup_has_no_guard:
  "fst (lookup cl env []) = map (\<lambda>n. Fetch (node_url n None) ''GET'' NoBody) (nodes cl)"
  by (simp add: lookup_def broadcast_def PBFTClient_path_def Let_def)

text \<open>
  Claim C4 as stated fails on \<open>lookup\<close> of \<open>KeyServer\<close>: when all four nodes answer 404,
  the client's lookup rejects with \<open>404 Not Found\<close> (status and status text, without the
  body, in \<open>modules/pbftClient.js\<close>), and the promise the caller of \<open>KeyServer\<close> holds is
  fulfilled with \<open>undefined\<close>.
\<close>

theorem lookup_swallows_quorum_failure:
  "snd (modules_lookup (new_PBFTClient four_nodes) not_found_env ''alice@example.org'') =
     Rejected (Str ''404 Not Found'')
   \<and> snd (snd (KeyServer_lookup fresh_KeyServer not_found_env (Some ''alice@example.org''))) =
     Fulfilled None"
  by (simp add: eval_simps scenario_simps workflow_simps)

lemma lookup_promise:
  "snd (lookup cl env email) =
     (case snd (broadcast cl (env_network env) (PBFTClient_path email) None None) of
        Fulfilled (c, t, b) \<Rightarrow>
          Fulfilled \<lparr>keyId = ''keyid'', cred_fingerprint = ''fingerprint'',
                     userIds = [\<lparr>uid_name = ''name'', uid_email = email, uid_verified = True\<rparr>],
                     created = ''2017-12-10T03: 03: 20.763Z'',
                     uploaded = ''2017-12-10T03: 03: 20.763Z'',
                     algorithm = ''rsa_encrypt_sign'', keySize = 4096,
                     publicKeyArmored = b\<rparr>
      | Rejected e \<Rightarrow> Rejected e
      | Pending \<Rightarrow> Pending)"
  by (simp add: lookup_def split: prod.splits)

lemma lookup_requests:
  "fst (lookup cl env email) = fst (broadcast cl (env_network env) (PBFTClient_path email) None None)"
  by (simp add: lookup_def split: prod.splits)

lemma broadcast_quorum_failure:
  assumes "first_quorum ResponseKey (F cl) []
             (outcomes (map race (network (fst (broadcast cl network path m b))))) =
             Some (Failure c t x)"
  shows "snd (broadcast cl network path m b) = Rejected (Str (tpl_num c @ '' '' @ tpl_str t @ '' '' @ x))"
  using assms deliver_summary [of "F cl" "map race (network (fst (broadcast cl network path m b)))"]
  by (simp add: broadcast_promise promise_of_def)

lemma modules_broadcast_quorum_failure:
  assumes "first_quorum modules_ResponseKey (F cl) []
             (modules_outcomes (map race (network (fst (modules_broadcast cl network path m b))))) =
             Some (Failure c t x)"
  shows "snd (modules_broadcast cl network path m b) = Rejected (Str (tpl_num c @ '' '' @ tpl_str t))"
  using assms
    modules_deliver_summary [of "F cl" "map race (network (fst (modules_broadcast cl network path m b)))"]
  by (simp add: modules_broadcast_promise promise_of_def)

lemma KeyServer_lookup_never_rejects:
  assumes "email \<noteq> []"
  shows "snd (snd (KeyServer_lookup ks env (Some email))) \<noteq> Rejected x"
  using assms
  by (auto simp add: KeyServer_lookup_def Let_def split: prod.splits promise.splits option.splits)

lemma KeyServer_lookup_swallows:
  assumes "email \<noteq> []" "snd (snd (getPBFTClient ks env)) = Fulfilled cl"
    "snd (modules_lookup cl env email) = Rejected e"
  shows "snd (snd (KeyServer_lookup ks env (Some email))) = Fulfilled None"
  using assms
  by (auto simp add: KeyServer_lookup_def Let_def split: prod.splits promise.splits option.splits)

text \<open>
  Claim C4, amended. When a quorum of \<open>F + 1\<close> matching Failure outcomes forms, \<open>lookup\<close>
  of \<open>PBFTClient\<close> rejects with the error string of that outcome, which is the string the
  broadcast rejected with, unchanged: \<open>{statusCode} {statusText}\<close>, without the body, in
  \<open>modules/pbftClient.js\<close>, the client that \<open>KeyServer\<close> imports, and
  \<open>{statusCode} {statusText} {body}\<close> in \<open>unnamed/part_000\<close>. \<open>lookup\<close> of \<open>KeyServer\<close>
  catches the rejection of its client's lookup and is fulfilled with \<open>undefined\<close>; for a
  non-empty identity it never rejects.
\<close>

theorem lookup_failure_propagation:
  "(first_quorum modules_ResponseKey (F cl) []
       (modules_outcomes (map race (env_network env (fst (modules_lookup cl env email))))) =
         Some (Failure c t x)
      \<longrightarrow> snd (modules_lookup cl env email) = Rejected (Str (tpl_num c @ '' '' @ tpl_str t)))
   \<and> snd (modules_lookup cl env email) =
        snd (modules_broadcast cl (env_network env) (PBFTClient_path email) None None)
   \<and> (first_quorum ResponseKey (F cl) []
         (outcomes (map race (env_network env (fst (lookup cl env email))))) =
         Some (Failure c t x)
      \<longrightarrow> snd (lookup cl env email) = Rejected (Str (tpl_num c @ '' '' @ tpl_str t @ '' '' @ x)))
   \<and> (snd (broadcast cl (env_network env) (PBFTClient_path email) None None) = Rejected e
      \<longrightarrow> snd (lookup cl env email) = Rejected e)
   \<and> (email \<noteq> [] \<and> snd (snd (getPBFTClient ks env)) = Fulfilled cl'
        \<and> snd (modules_lookup cl' env email) = Rejected e'
      \<longrightarrow> snd (snd (KeyServer_lookup ks env (Some email))) = Fulfilled None)
   \<and> (email \<noteq> [] \<longrightarrow> (\<forall>y. snd (snd (KeyServer_lookup ks env (Some email))) \<noteq> Rejected y))"
proof -
  have m: "first_quorum modules_ResponseKey (F cl) []
       (modules_outcomes (map race (env_network env (fst (modules_lookup cl env email))))) =
         Some (Failure c t x)
      \<longrightarrow> snd (modules_lookup cl env email) = Rejected (Str (tpl_num c @ '' '' @ tpl_str t))"
    unfolding modules_lookup_def by (rule impI) (rule modules_broadcast_quorum_failure)
  have n: "snd (modules_lookup cl env email) =
        snd (modules_broadcast cl (env_network env) (PBFTClient_path email) None None)"
    by (simp add: modules_lookup_def)
  have a: "snd (broadcast cl (env_network env) (PBFTClient_path email) None None) = Rejected e
      \<longrightarrow> snd (lookup cl env email) = Rejected e"
    by (simp add: lookup_promise)
  have b: "first_quorum ResponseKey (F cl) []
         (outcomes (map race (env_network env (fst (lookup cl env email))))) =
         Some (Failure c t x)
      \<longrightarrow> snd (lookup cl env email) = Rejected (Str (tpl_num c @ '' '' @ tpl_str t @ '' '' @ x))"
  proof
    assume "first_quorum ResponseKey (F cl) []
         (outcomes (map race (env_network env (fst (lookup cl env email))))) =
         Some (Failure c t x)"
    then have "snd (broadcast cl (env_network env) (PBFTClient_path email) None None) =
        Rejected (Str (tpl_num c @ '' '' @ tpl_str t @ '' '' @ x))"
      unfolding lookup_requests by (rule broadcast_quorum_failure)
    then show "snd (lookup cl env email) = Rejected (Str (tpl_num c @ '' '' @ tpl_str t @ '' '' @ x))"
      by (simp add: lookup_promise)
  qed
  show ?thesis
    using m n a b KeyServer_lookup_swallows [of email ks env cl' e']
      KeyServer_lookup_never_rejects [of email ks env]
    by blast
qed

theorem lookup_failure_propagation_witness:
  "snd (modules_lookup (new_PBFTClient four_nodes) not_found_env ''alice@example.org'') =
     Rejected (Str ''404 Not Found'')
   \<and> snd (lookup (new_PBFTClient four_nodes) not_found_env ''alice@example.org'') =
     Rejected (Str ''404 Not Found unknown alias'')
   \<and> snd (snd (KeyServer_lookup fresh_KeyServer not_found_env (Some ''alice@example.org''))) \<noteq>
     Rejected (Str ''404 Not Found'')"
  using lookup_failure_propagation [of "new_PBFTClient four_nodes" not_found_env
      "''alice@example.org''" "Some 404" "Some ''Not Found''" "''unknown alias''"
      "Str ''404 Not Found unknown alias''" fresh_KeyServer "new_PBFTClient four_nodes"
      "Str ''404 Not Found''"]
  by (simp add: eval_simps scenario_simps workflow_simps)


section \<open>The upload workflow\<close>

lemma broadcast_requests:
  assumes "m \<noteq> []"
  shows "fst (broadcast cl network path (Some m) (Some p)) =
           map (\<lambda>n. Fetch (node_url n path) m (Json p)) (nodes cl)"
  using assms by (simp add: broadcast_def Let_def)

lemma upload_catch_not_found:
  assumes "not_found e"
  shows "upload_catch cl env email publicKey e =
     (PromptSignature #
        map (\<lambda>n. Fetch (node_url n (Some [])) ''POST''
                   (Json (appendSignature (genPayload env email publicKey) (env_signature env))))
            (nodes cl),
      case snd (broadcast cl (env_network env) (Some []) (Some ''POST'')
                  (Some (appendSignature (genPayload env email publicKey) (env_signature env)))) of
        Fulfilled x \<Rightarrow> Fulfilled x
      | Rejected e' \<Rightarrow> Rejected (Message e')
      | Pending \<Rightarrow> Pending)"
  using assms
    broadcast_requests [of "''POST''" cl "env_network env" "Some []"
      "appendSignature (genPayload env email publicKey) (env_signature env)"]
  by (simp add: upload_catch_def Let_def case_prod_beta)

lemma upload_catch_other:
  assumes "\<not> not_found e"
  shows "upload_catch cl env email publicKey e = ([], Rejected e)"
  using assms by (simp add: upload_catch_def)

lemma upload_lookup_rejected:
  assumes "snd (lookup cl env email) = Rejected e"
  shows "upload cl env ring email publicKey =
     (ring, fst (lookup cl env email) @ fst (upload_catch cl env email publicKey e),
      snd (upload_catch cl env email publicKey e))"
  using assms by (simp add: upload_def Let_def case_prod_beta)

lemma not_found_404: "not_found (Str (ResponseKey (Failure (Some 404) t b)))"
  by (simp add: not_found_def tpl_num_def show_nat.simps digit_char_def)

text \<open>
  Claim C8. When the lookup that opens \<open>upload\<close> fails with a string that starts with
  \<open>404\<close> (as the key of every Failure with status 404 does), the workflow asks for the
  signature, builds a new payload, attaches the signature and sends it to every node with
  \<open>POST\<close>; the result is that of this broadcast, a failure wrapped as \<open>{message: e}\<close>.
  Every other failure of the lookup ends the workflow with that same value, and nothing
  more is sent.
\<close>

theorem upload_not_found_submits_signed_creation:
  assumes "snd (lookup cl env email) = Rejected e"
  shows "(not_found e \<longrightarrow>
            upload cl env ring email publicKey =
              (ring,
               fst (lookup cl env email) @ PromptSignature #
                 map (\<lambda>n. Fetch (node_url n (Some [])) ''POST''
                            (Json \<lparr>payload_alias = email, payload_key = publicKey,
                                   payload_timestamp = env_now env,
                                   payload_signature = Some (env_signature env)\<rparr>))
                     (nodes cl),
               case snd (broadcast cl (env_network env) (Some []) (Some ''POST'')
                           (Some \<lparr>payload_alias = email, payload_key = publicKey,
                                   payload_timestamp = env_now env,
                                   payload_signature = Some (env_signature env)\<rparr>)) of
                 Fulfilled x \<Rightarrow> Fulfilled x
               | Rejected e' \<Rightarrow> Rejected (Message e')
               | Pending \<Rightarrow> Pending))
       \<and> (\<not> not_found e \<longrightarrow>
            upload cl env ring email publicKey = (ring, fst (lookup cl env email), Rejected e))
       \<and> not_found (Str (ResponseKey (Failure (Some 404) t b)))"
proof -
  have p: "appendSignature (genPayload env email publicKey) (env_signature env) =
             \<lparr>payload_alias = email, payload_key = publicKey, payload_timestamp = env_now env,
              payload_signature = Some (env_signature env)\<rparr>"
    by (simp add: appendSignature_def genPayload_def)
  have a: "not_found e \<longrightarrow>
            upload cl env ring email publicKey =
              (ring,
               fst (lookup cl env email) @ PromptSignature #
                 map (\<lambda>n. Fetch (node_url n (Some [])) ''POST''
                            (Json \<lparr>payload_alias = email, payload_key = publicKey,
                                   payload_timestamp = env_now env,
                                   payload_signature = Some (env_signature env)\<rparr>))
                     (nodes cl),
               case snd (broadcast cl (env_network env) (Some []) (Some ''POST'')
                           (Some \<lparr>payload_alias = email, payload_key = publicKey,
                                   payload_timestamp = env_now env,
                                   payload_signature = Some (env_signature env)\<rparr>)) of
                 Fulfilled x \<Rightarrow> Fulfilled x
               | Rejected e' \<Rightarrow> Rejected (Message e')
               | Pending \<Rightarrow> Pending)"
    using upload_lookup_rejected [OF assms, of ring publicKey]
      upload_catch_not_found [of e cl env email publicKey]
    by (simp add: p)
  have b: "\<not> not_found e \<longrightarrow>
            upload cl env ring email publicKey = (ring, fst (lookup cl env email), Rejected e)"
    using upload_lookup_rejected [OF assms, of ring publicKey]
      upload_catch_other [of e cl env email publicKey]
    by simp
  from a b not_found_404 [of t b] show ?thesis by blast
qed

theorem upload_not_found_submits_signed_creation_witness:
  "snd (lookup (new_PBFTClient four_nodes) not_found_env ''alice@example.org'') =
     Rejected (Str ''404 Not Found unknown alias'')
   \<and> not_found (Str ''404 Not Found unknown alias'')
   \<and> snd (snd (upload (new_PBFTClient four_nodes) not_found_env [old_key] ''alice@example.org''
        ''ARMORED'')) = Fulfilled (Some 200, Some ''OK'', JStr ''committed'')
   \<and> Fetch ''http://localhost:8080'' ''POST''
        (Json \<lparr>payload_alias = ''alice@example.org'', payload_key = ''ARMORED'',
               payload_timestamp = 1512875000, payload_signature = Some (Some ''AUTHORITY'')\<rparr>)
      \<in> set (fst (snd (upload (new_PBFTClient four_nodes) not_found_env [old_key]
           ''alice@example.org'' ''ARMORED'')))"
proof -
  have h: "snd (lookup (new_PBFTClient four_nodes) not_found_env ''alice@example.org'') =
     Rejected (Str ''404 Not Found unknown alias'')"
    by (simp add: eval_simps scenario_simps workflow_simps)
  have n: "not_found (Str ''404 Not Found unknown alias'')"
    by (simp add: not_found_def)
  have u: "upload (new_PBFTClient four_nodes) not_found_env [old_key] ''alice@example.org'' ''ARMORED'' =
      ([old_key],
       fst (lookup (new_PBFTClient four_nodes) not_found_env ''alice@example.org'') @ PromptSignature #
         map (\<lambda>n. Fetch (node_url n (Some [])) ''POST''
                    (Json \<lparr>payload_alias = ''alice@example.org'', payload_key = ''ARMORED'',
                           payload_timestamp = env_now not_found_env,
                           payload_signature = Some (env_signature not_found_env)\<rparr>))
             (nodes (new_PBFTClient four_nodes)),
       case snd (broadcast (new_PBFTClient four_nodes) (env_network not_found_env) (Some [])
                   (Some ''POST'')
                   (Some \<lparr>payload_alias = ''alice@example.org'', payload_key = ''ARMORED'',
                           payload_timestamp = env_now not_found_env,
                           payload_signature = Some (env_signature not_found_env)\<rparr>)) of
         Fulfilled x \<Rightarrow> Fulfilled x
       | Rejected e' \<Rightarrow> Rejected (Message e')
       | Pending \<Rightarrow> Pending)"
    using upload_not_found_submits_signed_creation [OF h, of "[old_key]" "''ARMORED''"] n
    by blast
  show ?thesis
    unfolding u using h n
    by (simp add: eval_simps scenario_simps broadcast_def promise_of_def race_def deadline_def
          node_url_def)
qed

lemma not_found_Message: "\<not> not_found (Message e)"
  by (simp add: not_found_def)

lemma not_found_ownership: "\<not> not_found (ownership_error email)"
  by (simp add: not_found_def ownership_error_def)

lemma findPrivateKey_none:
  assumes "eligible env ring email publicKey = Some []"
  shows "findPrivateKey env ring email publicKey = ([], Rejected (ownership_error email))"
  using assms by (simp add: eligible_def findPrivateKey_def Let_def split: list.splits)

lemma findPrivateKey_first:
  assumes "eligible env ring email publicKey = Some (k # ks)"
  shows "findPrivateKey env ring email publicKey =
           ([PromptPassphrase], env_unlockKey env k (env_passphrase env))"
  using assms by (auto simp add: eligible_def findPrivateKey_def Let_def split: list.splits)

lemma upload_find_rejected:
  assumes "snd (lookup cl env email) = Fulfilled cred"
    and "snd (findPrivateKey env ring email publicKey) = Rejected e"
  shows "upload cl env ring email publicKey =
     (ring,
      fst (lookup cl env email) @ fst (findPrivateKey env ring email publicKey) @
        fst (upload_catch cl env email publicKey e),
      snd (upload_catch cl env email publicKey e))"
  using assms by (simp add: upload_def Let_def case_prod_beta)

lemma upload_signed:
  assumes "snd (lookup cl env email) = Fulfilled cred"
    and "snd (findPrivateKey env ring email publicKey) = Fulfilled oldPrivateKey"
    and "signPayload env (genPayload env email publicKey) oldPrivateKey = Fulfilled signedPayload"
  shows "upload cl env ring email publicKey =
     (case snd (broadcast cl (env_network env) (Some []) (Some ''PUT'') (Some signedPayload)) of
        Fulfilled r \<Rightarrow>
          (removeKey ring (fingerprint oldPrivateKey),
           fst (lookup cl env email) @ fst (findPrivateKey env ring email publicKey) @
             fst (broadcast cl (env_network env) (Some []) (Some ''PUT'') (Some signedPayload)),
           Fulfilled r)
      | Rejected e \<Rightarrow>
          (ring,
           fst (lookup cl env email) @ fst (findPrivateKey env ring email publicKey) @
             fst (broadcast cl (env_network env) (Some []) (Some ''PUT'') (Some signedPayload)),
           Rejected (Message e))
      | Pending \<Rightarrow>
          (ring,
           fst (lookup cl env email) @ fst (findPrivateKey env ring email publicKey) @
             fst (broadcast cl (env_network env) (Some []) (Some ''PUT'') (Some signedPayload)),
           Pending))"
  using assms
  by (simp add: upload_def Let_def case_prod_beta upload_catch_other not_found_Message
      split: promise.splits)

lemma upload_ring_cases:
  "fst (upload cl env ring email publicKey) = ring
   \<or> (\<exists>cred oldPrivateKey signedPayload r.
         snd (lookup cl env email) = Fulfilled cred
       \<and> snd (findPrivateKey env ring email publicKey) = Fulfilled oldPrivateKey
       \<and> signPayload env (genPayload env email publicKey) oldPrivateKey = Fulfilled signedPayload
       \<and> snd (broadcast cl (env_network env) (Some []) (Some ''PUT'') (Some signedPayload)) = Fulfilled r
       \<and> fst (upload cl env ring email publicKey) = removeKey ring (fingerprint oldPrivateKey))"
  by (simp add: upload_def Let_def case_prod_beta split: promise.splits)

text \<open>
  Claim C9. After a successful lookup, when the store returns no credential for the identity
  once the fingerprint of the uploaded key is excluded, \<open>upload\<close> rejects with the
  ownership error, leaves the keyring as it was and has sent nothing but the requests of
  the lookup. When there are one or more, the first is the one unlocked, and the key so
  obtained signs the payload that the update broadcast sends with \<open>PUT\<close>.
\<close>

theorem no_owned_key_aborts_update:
  assumes "snd (lookup cl env email) = Fulfilled cred"
  shows "(eligible env ring email publicKey = Some [] \<longrightarrow>
            upload cl env ring email publicKey =
              (ring, fst (lookup cl env email), Rejected (ownership_error email)))
       \<and> (\<forall>k ks. eligible env ring email publicKey = Some (k # ks) \<longrightarrow>
             findPrivateKey env ring email publicKey =
               ([PromptPassphrase], env_unlockKey env k (env_passphrase env))
           \<and> (\<forall>unlocked s.
                 env_unlockKey env k (env_passphrase env) = Fulfilled unlocked
               \<and> env_sign env (genPayload env email publicKey) unlocked = Fulfilled s \<longrightarrow>
                 fst (snd (upload cl env ring email publicKey)) =
                   fst (lookup cl env email) @ PromptPassphrase #
                     map (\<lambda>n. Fetch (node_url n (Some [])) ''PUT''
                                (Json (appendSignature (genPayload env email publicKey) (Some s))))
                         (nodes cl)))"
proof (intro conjI impI allI)
  assume z: "eligible env ring email publicKey = Some []"
  show "upload cl env ring email publicKey =
          (ring, fst (lookup cl env email), Rejected (ownership_error email))"
  proof -
    have r: "snd (findPrivateKey env ring email publicKey) = Rejected (ownership_error email)"
      by (simp add: findPrivateKey_none [OF z])
    show ?thesis
      using upload_find_rejected [OF assms r]
      by (simp add: findPrivateKey_none [OF z] upload_catch_other not_found_ownership)
  qed
next
  fix k ks
  assume e: "eligible env ring email publicKey = Some (k # ks)"
  show "findPrivateKey env ring email publicKey =
          ([PromptPassphrase], env_unlockKey env k (env_passphrase env))"
    by (rule findPrivateKey_first [OF e])
next
  fix k ks unlocked s
  assume e: "eligible env ring email publicKey = Some (k # ks)"
    and u: "env_unlockKey env k (env_passphrase env) = Fulfilled unlocked
            \<and> env_sign env (genPayload env email publicKey) unlocked = Fulfilled s"
  have f: "snd (findPrivateKey env ring email publicKey) = Fulfilled unlocked"
    using u by (simp add: findPrivateKey_first [OF e])
  have g: "signPayload env (genPayload env email publicKey) unlocked =
             Fulfilled (appendSignature (genPayload env email publicKey) (Some s))"
    using u by (simp add: signPayload_def)
  show "fst (snd (upload cl env ring email publicKey)) =
          fst (lookup cl env email) @ PromptPassphrase #
            map (\<lambda>n. Fetch (node_url n (Some [])) ''PUT''
                       (Json (appendSignature (genPayload env email publicKey) (Some s))))
                (nodes cl)"
    using broadcast_requests [of "''PUT''" cl "env_network env" "Some []"
        "appendSignature (genPayload env email publicKey) (Some s)"]
    by (simp add: upload_signed [OF assms f g] findPrivateKey_first [OF e] split: promise.splits)
qed

theorem no_owned_key_aborts_update_witness:
  "snd (lookup (new_PBFTClient four_nodes) found_env ''alice@example.org'') \<noteq> Pending
   \<and> eligible found_env [new_key] ''alice@example.org'' ''ARMORED'' = Some []
   \<and> upload (new_PBFTClient four_nodes) found_env [new_key] ''alice@example.org'' ''ARMORED'' =
       ([new_key],
        fst (lookup (new_PBFTClient four_nodes) found_env ''alice@example.org''),
        Rejected (Error ''You do not own the key for the email alice@example.org so you cannot update it.''))
   \<and> eligible found_env [new_key, old_key] ''alice@example.org'' ''ARMORED'' = Some [old_key]
   \<and> Fetch ''http://localhost:8080'' ''PUT''
        (Json \<lparr>payload_alias = ''alice@example.org'', payload_key = ''ARMORED'',
               payload_timestamp = 1512875000, payload_signature = Some (Some ''SIGNED'')\<rparr>)
      \<in> set (fst (snd (upload (new_PBFTClient four_nodes) found_env [new_key, old_key]
           ''alice@example.org'' ''ARMORED'')))"
proof -
  have h: "snd (lookup (new_PBFTClient four_nodes) found_env ''alice@example.org'') =
     Fulfilled \<lparr>keyId = ''keyid'', cred_fingerprint = ''fingerprint'',
                userIds = [\<lparr>uid_name = ''name'', uid_email = ''alice@example.org'',
                            uid_verified = True\<rparr>],
                created = ''2017-12-10T03: 03: 20.763Z'',
                uploaded = ''2017-12-10T03: 03: 20.763Z'',
                algorithm = ''rsa_encrypt_sign'', keySize = 4096,
                publicKeyArmored = JStr ''STORED KEY''\<rparr>"
    by (simp add: eval_simps scenario_simps workflow_simps)
  have z: "eligible found_env [new_key] ''alice@example.org'' ''ARMORED'' = Some []"
    by (simp add: eligible_def getKeyByAddress_def scenario_simps)
  have o: "eligible found_env [new_key, old_key] ''alice@example.org'' ''ARMORED'' = Some [old_key]"
    by (simp add: eligible_def getKeyByAddress_def scenario_simps)
  have u: "env_unlockKey found_env old_key (env_passphrase found_env) = Fulfilled old_key
         \<and> env_sign found_env (genPayload found_env ''alice@example.org'' ''ARMORED'') old_key =
             Fulfilled ''SIGNED''"
    by (simp add: scenario_simps)
  note t1 = no_owned_key_aborts_update [OF h, of "[new_key]" "''ARMORED''"]
  note t2 = no_owned_key_aborts_update [OF h, of "[new_key, old_key]" "''ARMORED''"]
  have a: "upload (new_PBFTClient four_nodes) found_env [new_key] ''alice@example.org'' ''ARMORED'' =
       ([new_key],
        fst (lookup (new_PBFTClient four_nodes) found_env ''alice@example.org''),
        Rejected (ownership_error ''alice@example.org''))"
    using t1 z by blast
  have b: "fst (snd (upload (new_PBFTClient four_nodes) found_env [new_key, old_key]
             ''alice@example.org'' ''ARMORED'')) =
           fst (lookup (new_PBFTClient four_nodes) found_env ''alice@example.org'') @ PromptPassphrase #
             map (\<lambda>n. Fetch (node_url n (Some [])) ''PUT''
                        (Json (appendSignature (genPayload found_env ''alice@example.org'' ''ARMORED'')
                                 (Some ''SIGNED''))))
                 (nodes (new_PBFTClient four_nodes))"
    using t2 o u by blast
  show ?thesis
    unfolding a b using h z o
    by (simp add: ownership_error_def appendSignature_def genPayload_def node_url_def
          new_PBFTClient_def four_nodes_def show_nat.simps digit_char_def scenario_simps)
qed

text \<open>
  Claim C10. In the found branch the keyring after \<open>upload\<close> is the keyring without the
  old key's fingerprint when the update broadcast resolves, and the unchanged keyring when
  it rejects or stays pending; and whenever \<open>upload\<close> changes the keyring at all, it did so
  on that path. Removing by fingerprint removes every key with it and no other.
\<close>

theorem old_key_retired_exactly_on_commit:
  "(snd (lookup cl env email) = Fulfilled cred
      \<and> snd (findPrivateKey env ring email publicKey) = Fulfilled oldPrivateKey
      \<and> signPayload env (genPayload env email publicKey) oldPrivateKey = Fulfilled signedPayload
    \<longrightarrow> fst (upload cl env ring email publicKey) =
          (case snd (broadcast cl (env_network env) (Some []) (Some ''PUT'') (Some signedPayload)) of
             Fulfilled r \<Rightarrow> removeKey ring (fingerprint oldPrivateKey)
           | Rejected e \<Rightarrow> ring
           | Pending \<Rightarrow> ring))
   \<and> (fst (upload cl env ring email publicKey) \<noteq> ring \<longrightarrow>
        (\<exists>cred' old signed r.
            snd (lookup cl env email) = Fulfilled cred'
          \<and> snd (findPrivateKey env ring email publicKey) = Fulfilled old
          \<and> signPayload env (genPayload env email publicKey) old = Fulfilled signed
          \<and> snd (broadcast cl (env_network env) (Some []) (Some ''PUT'') (Some signed)) = Fulfilled r
          \<and> fst (upload cl env ring email publicKey) = removeKey ring (fingerprint old)))
   \<and> (\<forall>k \<in> set (removeKey ring fp). fingerprint k \<noteq> fp)
   \<and> (\<forall>k \<in> set ring. fingerprint k \<noteq> fp \<longrightarrow> k \<in> set (removeKey ring fp))"
proof -
  have a: "snd (lookup cl env email) = Fulfilled cred
      \<and> snd (findPrivateKey env ring email publicKey) = Fulfilled oldPrivateKey
      \<and> signPayload env (genPayload env email publicKey) oldPrivateKey = Fulfilled signedPayload
    \<longrightarrow> fst (upload cl env ring email publicKey) =
          (case snd (broadcast cl (env_network env) (Some []) (Some ''PUT'') (Some signedPayload)) of
             Fulfilled r \<Rightarrow> removeKey ring (fingerprint oldPrivateKey)
           | Rejected e \<Rightarrow> ring
           | Pending \<Rightarrow> ring)"
  proof
    assume h: "snd (lookup cl env email) = Fulfilled cred
      \<and> snd (findPrivateKey env ring email publicKey) = Fulfilled oldPrivateKey
      \<and> signPayload env (genPayload env email publicKey) oldPrivateKey = Fulfilled signedPayload"
    show "fst (upload cl env ring email publicKey) =
          (case snd (broadcast cl (env_network env) (Some []) (Some ''PUT'') (Some signedPayload)) of
             Fulfilled r \<Rightarrow> removeKey ring (fingerprint oldPrivateKey)
           | Rejected e \<Rightarrow> ring
           | Pending \<Rightarrow> ring)"
      using upload_signed [of cl env email cred ring publicKey oldPrivateKey signedPayload] h
      by (simp split: promise.splits)
  qed
  have c: "\<forall>k \<in> set (removeKey ring fp). fingerprint k \<noteq> fp"
    by (simp add: removeKey_def)
  have d: "\<forall>k \<in> set ring. fingerprint k \<noteq> fp \<longrightarrow> k \<in> set (removeKey ring fp)"
    by (simp add: removeKey_def)
  show ?thesis
    using a c d upload_ring_cases [of cl env ring email publicKey] by blast
qed

theorem old_key_retired_exactly_on_commit_witness:
  "fst (upload (new_PBFTClient four_nodes) found_env [new_key, old_key] ''alice@example.org''
          ''ARMORED'') = [new_key]
   \<and> fst (upload (new_PBFTClient four_nodes) put_fails_env [new_key, old_key] ''alice@example.org''
          ''ARMORED'') = [new_key, old_key]
   \<and> snd (snd (upload (new_PBFTClient four_nodes) put_fails_env [new_key, old_key]
          ''alice@example.org'' ''ARMORED'')) =
       Rejected (Message (Str ''500 Internal Server Error disk full''))"
  using old_key_retired_exactly_on_commit [of "new_PBFTClient four_nodes" found_env
      "''alice@example.org''" _ "[new_key, old_key]" "''ARMORED''" old_key
      "appendSignature (genPayload found_env ''alice@example.org'' ''ARMORED'') (Some ''SIGNED'')"
      "''AAAA''"]
  by (simp add: eval_simps scenario_simps workflow_simps put_fails_env_def)

end
